theory Spec2Isabelle
  imports Main "HOL-Library.Char_ord" "HOL-Library.List_Lexorder" "HOL-Library.Sublist"
begin

section \<open>A shallow embedding of the Node.JS HTTP file server\<close>

text \<open>
  The repository holds three revisions of one script. The streaming revision (the second
  script of \<^verbatim>\<open>src/unnamed/part_000\<close>, with \<^verbatim>\<open>fs.open\<close>, \<^verbatim>\<open>fs.fstat\<close>,
  \<^verbatim>\<open>fs.createReadStream\<close> and the \<^verbatim>\<open>--no-cache\<close> switch) is embedded as
  \<open>handler\<close>. Revisions 0.1 (first script of \<^verbatim>\<open>part_000\<close>) and 0.2.1
  (\<^verbatim>\<open>src/http-file-server.js\<close>) differ from each other only in their console output
  and are embedded together as \<open>handler_0_2\<close>.

  Conventions of the embedding:
  \<^item> A JavaScript string is kept as the octets of its UTF-8 form, one \<open>char\<close> per
    octet, and so are file names and file contents. Equality, \<^verbatim>\<open>split\<close>, \<^verbatim>\<open>substr\<close>,
    \<^verbatim>\<open>replace\<close> with the patterns of the script and \<^verbatim>\<open>Buffer.byteLength\<close> read the
    same on the octets as on the string. \<^verbatim>\<open>Array.prototype.sort\<close> does not: it compares
    strings by their UTF-16 code units, which \<open>utf16_units\<close> computes from the octets.
    File names are taken to be well-formed UTF-8.
  \<^item> One request is one run of the callback chain. Every call the script makes on the
    \<^verbatim>\<open>fs\<close> module and on the response object \<^verbatim>\<open>res\<close> is recorded, in order, as an
    \<open>effect\<close>; what the \<^verbatim>\<open>fs\<close> module answers is a parameter (\<open>filesystem\<close>). What the
    response object makes of the calls (a second \<^verbatim>\<open>writeHead\<close> is stored by Node 0.10
    and refused by later versions) is outside the embedding.
  \<^item> An exception nobody catches ends the run: the effects so far are kept and the
    exception is reported in the second component of the result.
  \<^item> The \<^verbatim>\<open>console\<close> output (\<^verbatim>\<open>debug && console.log(...)\<close>) changes neither control
    flow nor any call on \<^verbatim>\<open>fs\<close> or \<^verbatim>\<open>res\<close> and is left out.
  \<^item> The input of a run is \<^verbatim>\<open>url.parse(req.url).pathname\<close>, the raw path of the URL.
\<close>

subsection \<open>Strings: \<^verbatim>\<open>split\<close>, \<^verbatim>\<open>join\<close>, \<^verbatim>\<open>substr\<close>, \<^verbatim>\<open>replace\<close>\<close>

text \<open>\<^verbatim>\<open>s.split(sep)\<close> for a separator of one character: \<^verbatim>\<open>''.split('+')\<close> is \<^verbatim>\<open>['']\<close>.\<close>

fun split_chr :: "char \<Rightarrow> string \<Rightarrow> string list" where
  "split_chr sep [] = [[]]"
| "split_chr sep (c # cs) =
     (if c = sep then [] # split_chr sep cs
      else (case split_chr sep cs of
              [] \<Rightarrow> [[c]]
            | p # ps \<Rightarrow> (c # p) # ps))"

text \<open>\<^verbatim>\<open>parts.join(sep)\<close>.\<close>

fun join_str :: "string \<Rightarrow> string list \<Rightarrow> string" where
  "join_str sep [] = []"
| "join_str sep [p] = p"
| "join_str sep (p # q # ps) = p @ sep @ join_str sep (q # ps)"

text \<open>
  \<^verbatim>\<open>while (pathname.substr(0, 1) == '/') { pathname = pathname.substr(1); }\<close>
  with \<open>take 1\<close> for \<^verbatim>\<open>substr(0, 1)\<close> and \<open>drop 1\<close> for \<^verbatim>\<open>substr(1)\<close>.
\<close>

function strip_leading_slashes :: "string \<Rightarrow> string" where
  "strip_leading_slashes pathname =
     (if take 1 pathname = ''/'' then strip_leading_slashes (drop 1 pathname)
      else pathname)"
  by pat_completeness auto
termination
proof (relation "measure length", goal_cases)
  case 1
  show ?case by simp
next
  case (2 pathname)
  then show ?case by (cases pathname) auto
qed

text \<open>
  The replacement text of \<^verbatim>\<open>String.prototype.replace\<close>: in a replacement given as a
  string, \<^verbatim>\<open>$$\<close> stands for one dollar sign, \<^verbatim>\<open>$&\<close> for the matched text, a dollar
  sign with a backquote (code unit 0x60) for the text before the match and a dollar sign
  with an apostrophe (0x27) for the text after it. The patterns of the script have no
  capture group, so \<^verbatim>\<open>$1\<close> \<^verbatim>\<open>...\<close> \<^verbatim>\<open>$99\<close> and every other use of the dollar sign stay as
  they are.
\<close>

fun expand_replacement :: "string \<Rightarrow> string \<Rightarrow> string \<Rightarrow> string \<Rightarrow> string" where
  "expand_replacement [] matched pre post = []"
| "expand_replacement [c] matched pre post = [c]"
| "expand_replacement (c # d # r) matched pre post =
     (if c = CHR ''$'' then
        (if d = CHR ''$'' then CHR ''$'' # expand_replacement r matched pre post
         else if d = CHR ''&'' then matched @ expand_replacement r matched pre post
         else if d = CHR 0x60 then pre @ expand_replacement r matched pre post
         else if d = CHR 0x27 then post @ expand_replacement r matched pre post
         else c # expand_replacement (d # r) matched pre post)
      else c # expand_replacement (d # r) matched pre post)"

text \<open>
  \<^verbatim>\<open>subject.replace(/pat/g, rep)\<close> for a pattern that is a literal, non-empty text (as
  \<^verbatim>\<open>/#TYPE#/g\<close>): every match, left to right and without overlap, is replaced.
  \<open>pre\<close> is the part of the subject that has been passed.
\<close>

function replace_from :: "string \<Rightarrow> string \<Rightarrow> string \<Rightarrow> string \<Rightarrow> string" where
  "replace_from pat rep pre [] = []"
| "replace_from pat rep pre (c # cs) =
     (if pat \<noteq> [] \<and> take (length pat) (c # cs) = pat then
        expand_replacement rep pat pre (drop (length pat) (c # cs))
          @ replace_from pat rep (pre @ pat) (drop (length pat - 1) cs)
      else c # replace_from pat rep (pre @ [c]) cs)"
  by pat_completeness auto
termination
  by (relation "measure (\<lambda>(pat, rep, pre, subject). length subject)") auto

definition js_replace :: "string \<Rightarrow> string \<Rightarrow> string \<Rightarrow> string" where
  "js_replace pat rep subject = replace_from pat rep [] subject"

text \<open>Decimal digits of a number, as \<^verbatim>\<open>'Error ' + errNum\<close> writes it.\<close>

fun string_of_nat :: "nat \<Rightarrow> string" where
  "string_of_nat n =
     (if n < 10 then [char_of (48 + n)]
      else string_of_nat (n div 10) @ [char_of (48 + n mod 10)])"

text \<open>
  The code points of a text given by its UTF-8 octets (U+FFFD where the octets are not
  well formed), and the UTF-16 code units of a code point: itself below U+10000, a pair
  of surrogates from there on.
\<close>

fun utf8_code_points :: "int list \<Rightarrow> int list" where
  "utf8_code_points [] = []"
| "utf8_code_points (b0 # bs) =
     (if b0 < 128 then b0 # utf8_code_points bs
      else if 192 \<le> b0 \<and> b0 < 224 \<and> 1 \<le> length bs then
        ((b0 - 192) * 64 + (bs ! 0 - 128)) # utf8_code_points (drop 1 bs)
      else if 224 \<le> b0 \<and> b0 < 240 \<and> 2 \<le> length bs then
        ((b0 - 224) * 4096 + (bs ! 0 - 128) * 64 + (bs ! 1 - 128))
          # utf8_code_points (drop 2 bs)
      else if 240 \<le> b0 \<and> b0 < 248 \<and> 3 \<le> length bs then
        ((b0 - 240) * 262144 + (bs ! 0 - 128) * 4096 + (bs ! 1 - 128) * 64 + (bs ! 2 - 128))
          # utf8_code_points (drop 3 bs)
      else 65533 # utf8_code_points bs)"

definition utf16_of_code_point :: "int \<Rightarrow> int list" where
  "utf16_of_code_point cp =
     (if cp < 65536 then [cp]
      else [55296 + (cp - 65536) div 1024, 56320 + (cp - 65536) mod 1024])"

definition utf16_units :: "string \<Rightarrow> int list" where
  "utf16_units s = concat (map utf16_of_code_point (utf8_code_points (map of_char s)))"

subsection \<open>\<^verbatim>\<open>decodeURIComponent\<close>\<close>

text \<open>
  What a failing call of the \<^verbatim>\<open>fs\<close> module reports, and the exceptions of a run:
  \<^verbatim>\<open>URIError\<close> from \<^verbatim>\<open>decodeURIComponent\<close>, \<^verbatim>\<open>TypeError\<close> from a method call on
  \<^verbatim>\<open>undefined\<close>, and the error a synchronous \<^verbatim>\<open>fs\<close> call throws.
\<close>

datatype errno = ENOENT | EACCES | EIO | ELOOP | EMFILE | ENOTDIR

datatype js_error = URIError | TypeError | FsError errno

definition hex_val :: "char \<Rightarrow> nat option" where
  "hex_val c =
     (let n = (of_char c :: nat) in
      if 48 \<le> n \<and> n \<le> 57 then Some (n - 48)
      else if 65 \<le> n \<and> n \<le> 70 then Some (n - 55)
      else if 97 \<le> n \<and> n \<le> 102 then Some (n - 87)
      else None)"

text \<open>One escape \<^verbatim>\<open>%XX\<close> at the head of the text: its octet and the rest.\<close>

fun read_escape :: "string \<Rightarrow> (nat \<times> string) option" where
  "read_escape (c # h1 # h2 # rest) =
     (if c = CHR ''%'' then
        (case (hex_val h1, hex_val h2) of
           (Some a, Some b) \<Rightarrow> Some (16 * a + b, rest)
         | _ \<Rightarrow> None)
      else None)"
| "read_escape _ = None"

text \<open>\<open>k\<close> further escapes, each a continuation octet \<^verbatim>\<open>10xxxxxx\<close>.\<close>

fun read_continuation :: "nat \<Rightarrow> string \<Rightarrow> (nat list \<times> string) option" where
  "read_continuation 0 s = Some ([], s)"
| "read_continuation (Suc k) s =
     (case read_escape s of
        None \<Rightarrow> None
      | Some (b, rest) \<Rightarrow>
          if 128 \<le> b \<and> b < 192 then
            (case read_continuation k rest of
               None \<Rightarrow> None
             | Some (bs, rest') \<Rightarrow> Some (b # bs, rest'))
          else None)"

text \<open>The length of the UTF-8 sequence a first octet announces.\<close>

definition utf8_length :: "nat \<Rightarrow> nat option" where
  "utf8_length b =
     (if b < 128 then Some 1
      else if b < 192 then None
      else if b < 224 then Some 2
      else if b < 240 then Some 3
      else if b < 248 then Some 4
      else None)"

text \<open>
  Whether the octets encode one code point: no overlong form, no surrogate, nothing
  above U+10FFFF.
\<close>

fun utf8_code_point :: "nat list \<Rightarrow> bool" where
  "utf8_code_point [b0] = (b0 < 128)"
| "utf8_code_point [b0, b1] = (194 \<le> b0)"
| "utf8_code_point [b0, b1, b2] =
     ((b0 = 224 \<and> 160 \<le> b1) \<or> (225 \<le> b0 \<and> b0 \<noteq> 237) \<or> (b0 = 237 \<and> b1 < 160))"
| "utf8_code_point [b0, b1, b2, b3] =
     ((b0 = 240 \<and> 144 \<le> b1) \<or> (241 \<le> b0 \<and> b0 \<le> 243) \<or> (b0 = 244 \<and> b1 < 144))"
| "utf8_code_point _ = False"

lemma read_escape_length:
  "read_escape s = Some (b, rest) \<Longrightarrow> length rest < length s"
  by (induction s rule: read_escape.induct) (auto split: if_splits option.splits)

lemma read_continuation_length:
  "read_continuation k s = Some (bs, rest) \<Longrightarrow> length rest \<le> length s"
proof (induction k arbitrary: s bs rest)
  case 0
  then show ?case by simp
next
  case (Suc k)
  then show ?case
    by (fastforce split: option.splits if_splits dest: read_escape_length)
qed

text \<open>
  \<^verbatim>\<open>decodeURIComponent\<close>: a code unit other than \<^verbatim>\<open>%\<close> stays; an escape gives its octet,
  and a first octet above 127 takes the continuation escapes it announces with it. Anything
  else throws \<^verbatim>\<open>URIError\<close>. The decoded text is kept as its UTF-8 octets.
\<close>

function decodeURIComponent :: "string \<Rightarrow> js_error + string" where
  "decodeURIComponent [] = Inr []"
| "decodeURIComponent (c # cs) =
     (if c \<noteq> CHR ''%'' then
        (case decodeURIComponent cs of
           Inl e \<Rightarrow> Inl e
         | Inr s \<Rightarrow> Inr (c # s))
      else
        (case read_escape (c # cs) of
           None \<Rightarrow> Inl URIError
         | Some (b, rest) \<Rightarrow>
             (case utf8_length b of
                None \<Rightarrow> Inl URIError
              | Some n \<Rightarrow>
                  (case read_continuation (n - 1) rest of
                     None \<Rightarrow> Inl URIError
                   | Some (bs, rest') \<Rightarrow>
                       if utf8_code_point (b # bs) then
                         (case decodeURIComponent rest' of
                            Inl e \<Rightarrow> Inl e
                          | Inr s \<Rightarrow> Inr (map char_of (b # bs) @ s))
                       else Inl URIError))))"
  by pat_completeness auto
termination
proof (relation "measure length", goal_cases)
  case 1
  show ?case by simp
next
  case (2 c cs)
  then show ?case by simp
next
  case (3 c cs x2 b rest n x2a bs rest')
  from 3 have "length rest < length (c # cs)"
    by (auto dest: read_escape_length)
  moreover from 3 have "length rest' \<le> length rest"
    by (auto dest: read_continuation_length)
  ultimately show ?case by simp
qed

subsection \<open>The \<^verbatim>\<open>path\<close> module (POSIX)\<close>

text \<open>
  \<^verbatim>\<open>normalizeArray\<close> walks the segments from the last to the first: \<^verbatim>\<open>.\<close> is dropped,
  \<^verbatim>\<open>..\<close> is dropped and counted, and a counted \<^verbatim>\<open>..\<close> drops the next name. The
  helper takes the segments in reverse and gives the kept ones in reverse.
\<close>

fun normalize_rev :: "string list \<Rightarrow> nat \<Rightarrow> string list \<times> nat" where
  "normalize_rev [] up = ([], up)"
| "normalize_rev (seg # parts) up =
     (if seg = ''.'' then normalize_rev parts up
      else if seg = ''..'' then normalize_rev parts (up + 1)
      else if 0 < up then normalize_rev parts (up - 1)
      else (case normalize_rev parts up of (kept, up') \<Rightarrow> (seg # kept, up')))"

definition normalizeArray :: "string list \<Rightarrow> bool \<Rightarrow> string list" where
  "normalizeArray parts allowAboveRoot =
     (case normalize_rev (rev parts) 0 of
        (kept, up) \<Rightarrow> (if allowAboveRoot then replicate up ''..'' else []) @ rev kept)"

definition path_normalize :: "string \<Rightarrow> string" where
  "path_normalize path =
     (let isAbsolute = (take 1 path = ''/'');
          trailingSlash = (path \<noteq> [] \<and> last path = CHR ''/'');
          segments = filter (\<lambda>s. s \<noteq> []) (split_chr (CHR ''/'') path);
          p = join_str ''/'' (normalizeArray segments (\<not> isAbsolute));
          p = (if p = [] \<and> \<not> isAbsolute then ''.'' else p);
          p = (if p \<noteq> [] \<and> trailingSlash then p @ ''/'' else p)
      in (if isAbsolute then ''/'' else []) @ p)"

text \<open>\<^verbatim>\<open>path.join(a, b)\<close>: the non-empty arguments with a slash between, normalised.\<close>

definition path_join :: "string \<Rightarrow> string \<Rightarrow> string" where
  "path_join a b =
     path_normalize
       (if b = [] then a
        else if a = [] then b
        else a @ ''/'' @ b)"

text \<open>
  \<^verbatim>\<open>path.extname(p)\<close>: from the last dot of the last segment (slashes at the end of
  \<open>p\<close> set aside) to its end; empty when the segment has no dot, when its only dot is its
  first code unit, and when the segment is \<^verbatim>\<open>..\<close>.
\<close>

definition extname :: "string \<Rightarrow> string" where
  "extname p =
     (let trimmed = rev (dropWhile (\<lambda>c. c = CHR ''/'') (rev p));
          base = rev (takeWhile (\<lambda>c. c \<noteq> CHR ''/'') (rev trimmed));
          ext = rev (takeWhile (\<lambda>c. c \<noteq> CHR ''.'') (rev base));
          stem = take (length base - length ext - 1) base
      in if CHR ''.'' \<in> set base \<and> stem \<noteq> [] \<and> base \<noteq> ''..'' then CHR ''.'' # ext
         else [])"

subsection \<open>The \<^verbatim>\<open>fs\<close> module and the response object\<close>

datatype inode_kind = S_IFREG | S_IFDIR | S_IFCHR | S_IFBLK | S_IFIFO | S_IFSOCK

record stats =
  st_kind :: inode_kind
  st_size :: nat

definition isFile :: "stats \<Rightarrow> bool" where
  "isFile stat = (st_kind stat = S_IFREG)"

definition isDirectory :: "stats \<Rightarrow> bool" where
  "isDirectory stat = (st_kind stat = S_IFDIR)"

text \<open>
  The events of a read stream, in the order the stream emits them: \<^verbatim>\<open>'data'\<close> with a
  chunk, \<^verbatim>\<open>'error'\<close>, \<^verbatim>\<open>'end'\<close>.
\<close>

datatype stream_event = Data string | ReadError errno | End

text \<open>
  What the \<^verbatim>\<open>fs\<close> module answers. \<open>Inl\<close> is the error handed to a callback (thrown, for
  \<^verbatim>\<open>statSync\<close>). \<^verbatim>\<open>fs.stat\<close> and \<^verbatim>\<open>fs.statSync\<close> follow symbolic links, so a link
  whose target is missing answers \<open>Inl ENOENT\<close>.
\<close>

record filesystem =
  fs_exists :: "string \<Rightarrow> bool"
  fs_open :: "string \<Rightarrow> errno + nat"
  fs_fstat :: "nat \<Rightarrow> errno + stats"
  fs_stat :: "string \<Rightarrow> errno + stats"
  fs_statSync :: "string \<Rightarrow> errno + stats"
  fs_readdir :: "string \<Rightarrow> errno + string list"
  fs_readFile :: "string \<Rightarrow> errno + string"
  fs_createReadStream :: "string \<Rightarrow> stream_event list"

text \<open>A header value is a string or a number (\<^verbatim>\<open>fileStat.size\<close>, \<^verbatim>\<open>Buffer.byteLength\<close>).\<close>

datatype header_value = HStr string | HNum nat

type_synonym headers = "(string \<times> header_value) list"

text \<open>
  The calls of a run. \<open>FsClose\<close> is \<^verbatim>\<open>fs.close(fd)\<close>: no revision of the script calls it,
  it is here so that the descriptors left open can be counted.
\<close>

datatype effect =
    FsExists string
  | FsOpen string
  | FsFstat nat
  | FsStat string
  | FsClose nat
  | FsReaddir string
  | FsStatSync string
  | FsReadFile string
  | FsCreateReadStream string
  | ResWriteHead nat headers
  | ResWrite string
  | ResEnd string

type_synonym run = "effect list \<times> js_error option"

text \<open>\<^verbatim>\<open>obj[key] = v\<close> on an object kept as its properties in insertion order.\<close>

fun obj_set :: "(string \<times> 'v) list \<Rightarrow> string \<Rightarrow> 'v \<Rightarrow> (string \<times> 'v) list" where
  "obj_set [] key v = [(key, v)]"
| "obj_set ((k, w) # ps) key v =
     (if k = key then (k, v) # ps else (k, w) # obj_set ps key v)"

subsection \<open>What all revisions share\<close>

definition defEnc :: string where
  "defEnc = ''utf-8''"

text \<open>
  \<^verbatim>\<open>tellAboutError(errNum, errMsg)\<close>: \<^verbatim>\<open>res.writeHead\<close> with a plain-text content type,
  then \<^verbatim>\<open>res.end\<close> with the message.
\<close>

definition tellAboutError :: "nat \<Rightarrow> string \<Rightarrow> effect list" where
  "tellAboutError errNum errMsg =
     [ResWriteHead errNum [(''Content-Type'', HStr ''text/plain; charset=utf-8'')],
      ResEnd (''Error '' @ string_of_nat errNum @ ''. '' @ errMsg)]"

text \<open>
  The request path: \<^verbatim>\<open>decodeURIComponent(pathname.split('+').join(' '))\<close>, the loop that
  removes the slashes in front, and \<^verbatim>\<open>path.join(filesPath, pathname)\<close>. The result is
  the pair of \<^verbatim>\<open>pathname\<close> and \<^verbatim>\<open>fullPath\<close>, or the exception of the decoding.
\<close>

record config =
  filesPath :: string
  noCache :: bool

definition request_paths :: "config \<Rightarrow> string \<Rightarrow> js_error + string \<times> string" where
  "request_paths cfg url_pathname =
     (case decodeURIComponent (join_str '' '' (split_chr (CHR ''+'') url_pathname)) of
        Inl exn \<Rightarrow> Inl exn
      | Inr pathname \<Rightarrow>
          (let pathname = strip_leading_slashes pathname
           in Inr (pathname, path_join (filesPath cfg) pathname)))"

definition template :: string where
  \<open>template =
     ''<!doctype html>''
     @ ''<html>''
     @ ''<head>''
     @ ''<meta charset="utf-8">''
     @ ''<title>Directory "#PATHNAME#"</title>''
     @ ''</head>''
     @ ''<body>''
     @ ''<h1>Directory "#PATHNAME#"</h1>''
     @ ''<ul>''
     @ ''#LIST_ELEMENTS#''
     @ ''</ul>''
     @ ''</body>''
     @ ''</html>''\<close>

definition listElementTemplate :: string where
  \<open>listElementTemplate = ''<li>#TYPE# <a href="#LINK#">#TITLE#</a></li>''\<close>

text \<open>
  \<^verbatim>\<open>listElementTemplate.replace(/#TYPE#/g, tag).replace(/#LINK#/g, link).replace(/#TITLE#/g, title)\<close>
\<close>

definition list_element :: "string \<Rightarrow> string \<Rightarrow> string \<Rightarrow> string" where
  "list_element tag link title =
     js_replace ''#TITLE#'' title
       (js_replace ''#LINK#'' link
          (js_replace ''#TYPE#'' tag listElementTemplate))"

text \<open>
  The loop \<^verbatim>\<open>files.forEach\<close> of \<^verbatim>\<open>listDir\<close>: each child is joined to \<^verbatim>\<open>fullPath\<close>,
  \<^verbatim>\<open>fs.statSync\<close> is called on it, and its name is pushed on \<^verbatim>\<open>dirsList\<close>, on
  \<^verbatim>\<open>filesList\<close> or on neither. No \<^verbatim>\<open>try\<close> surrounds the call: what \<^verbatim>\<open>statSync\<close>
  throws leaves the loop and the callback.
\<close>

fun classify ::
  "filesystem \<Rightarrow> string \<Rightarrow> string list \<Rightarrow> string list \<Rightarrow> string list
     \<Rightarrow> effect list \<times> (js_error + string list \<times> string list)" where
  "classify fs fullPath [] dirsList filesList = ([], Inr (dirsList, filesList))"
| "classify fs fullPath (file # rest) dirsList filesList =
     (let filePath = path_join fullPath file in
      case fs_statSync fs filePath of
        Inl err \<Rightarrow> ([FsStatSync filePath], Inl (FsError err))
      | Inr stat \<Rightarrow>
          (case (if isDirectory stat then
                   classify fs fullPath rest (dirsList @ [file]) filesList
                 else if isFile stat then
                   classify fs fullPath rest dirsList (filesList @ [file])
                 else classify fs fullPath rest dirsList filesList) of
             (es, r) \<Rightarrow> (FsStatSync filePath # es, r)))"

text \<open>
  The rest of the \<^verbatim>\<open>readdir\<close> callback up to the page: the entry for the parent,
  \<^verbatim>\<open>dirsList.sort()\<close> and \<^verbatim>\<open>filesList.sort()\<close> (no comparison function: by UTF-16
  code units), the two lists appended entry by entry (\<^verbatim>\<open>listElements += ...\<close>), and
  the two replacements in \<^verbatim>\<open>template\<close>.
\<close>

definition render_listing :: "string \<Rightarrow> string list \<Rightarrow> string list \<Rightarrow> string" where
  "render_listing pathname dirsList filesList =
     (let listElements =
            (if pathname \<noteq> [] \<and> pathname \<noteq> ''/'' then
               list_element ''[D]'' ''./..'' ''..''
             else []);
          dirsList = sort_key utf16_units dirsList;
          filesList = sort_key utf16_units filesList;
          listElements =
            foldl (\<lambda>acc name. acc @ list_element ''[D]'' (''./'' @ name @ ''/'') name)
              listElements dirsList;
          listElements =
            foldl (\<lambda>acc name. acc @ list_element ''[F]'' (''./'' @ name) name)
              listElements filesList
      in js_replace ''#LIST_ELEMENTS#'' listElements
           (js_replace ''#PATHNAME#'' (''/'' @ pathname) template))"

subsection \<open>The streaming revision\<close>

definition contentTypes :: "(string \<times> string) list" where
  "contentTypes =
     [(''.html'', ''text/html; charset='' @ defEnc),
      (''.css'', ''text/css; charset='' @ defEnc),
      (''.less'', ''text/css; charset='' @ defEnc),
      (''.js'', ''text/javascript; charset='' @ defEnc),
      (''.txt'', ''text/plain; charset='' @ defEnc),
      (''.png'', ''image/png''),
      (''.jpeg'', ''image/jpeg''),
      (''.jpg'', ''image/jpeg''),
      (''.jpe'', ''image/jpeg''),
      (''.gif'', ''image/gif''),
      (''.svg'', ''image/svg+xml; charset='' @ defEnc),
      (''.svgz'', ''image/svg+xml; charset='' @ defEnc),
      (''.ico'', ''image/x-icon''),
      (''.eot'', ''application/vnd.ms-fontobject''),
      (''.woff'', ''application/font-woff''),
      (''.ttf'', ''font/ttf''),
      (''*'', ''application/octet-stream'')]"

definition no_cache_headers :: "config \<Rightarrow> headers \<Rightarrow> headers" where
  "no_cache_headers cfg head =
     (if noCache cfg then
        obj_set
          (obj_set
             (obj_set head ''Cache-Control'' (HStr ''no-cache, no-store, must-revalidate''))
             ''Pragma'' (HStr ''no-cache''))
          ''Expires'' (HStr ''0'')
      else head)"

definition listDir :: "config \<Rightarrow> filesystem \<Rightarrow> string \<Rightarrow> string \<Rightarrow> run" where
  "listDir cfg fs pathname fullPath =
     (case fs_readdir fs fullPath of
        Inl err \<Rightarrow>
          (FsReaddir fullPath # tellAboutError 500 ''Cannot read directory.'', None)
      | Inr files \<Rightarrow>
          (case classify fs fullPath files [] [] of
             (es, Inl exn) \<Rightarrow> (FsReaddir fullPath # es, Some exn)
           | (es, Inr (dirsList, filesList)) \<Rightarrow>
               (let html = render_listing pathname dirsList filesList;
                    head = obj_set [] ''Content-Type'' (HStr ''text/html; charset=utf-8'');
                    head = obj_set head ''Content-Length'' (HNum (length html));
                    head = no_cache_headers cfg head
                in (FsReaddir fullPath # es @ [ResWriteHead 200 head, ResEnd html],
                    None))))"

text \<open>
  The headers of \<^verbatim>\<open>openFile\<close>: the length from \<^verbatim>\<open>fileStat.size\<close>, the cache headers,
  the loop \<^verbatim>\<open>for (var ext in contentTypes)\<close> (it compares with \<^verbatim>\<open>==\<close> and does not
  stop at a match), and the entry \<^verbatim>\<open>'*'\<close> when the loop has set no content type.
\<close>

definition openFile_head :: "config \<Rightarrow> stats \<Rightarrow> string \<Rightarrow> headers" where
  "openFile_head cfg fileStat fullPath =
     (let head = obj_set [] ''Content-Length'' (HNum (st_size fileStat));
          head = no_cache_headers cfg head;
          head =
            foldl
              (\<lambda>head (ext, contentType).
                 if ext = ''*'' then head
                 else if ext = extname fullPath then
                   obj_set head ''Content-Type'' (HStr contentType)
                 else head)
              head contentTypes
      in if map_of head ''Content-Type'' = None then
           (case map_of contentTypes ''*'' of
              Some contentType \<Rightarrow> obj_set head ''Content-Type'' (HStr contentType)
            | None \<Rightarrow> head)
         else head)"

text \<open>
  The three listeners of the stream, run on its events in order: \<^verbatim>\<open>'data'\<close> writes the
  chunk, \<^verbatim>\<open>'error'\<close> calls \<^verbatim>\<open>tellAboutError(500, 'Cannot read file.')\<close>, \<^verbatim>\<open>'end'\<close>
  calls \<^verbatim>\<open>res.end()\<close>.
\<close>

fun stream_listeners :: "stream_event list \<Rightarrow> effect list" where
  "stream_listeners [] = []"
| "stream_listeners (Data chunk # events) = ResWrite chunk # stream_listeners events"
| "stream_listeners (ReadError err # events) =
     tellAboutError 500 ''Cannot read file.'' @ stream_listeners events"
| "stream_listeners (End # events) = ResEnd [] # stream_listeners events"

definition openFile :: "config \<Rightarrow> filesystem \<Rightarrow> stats \<Rightarrow> string \<Rightarrow> effect list" where
  "openFile cfg fs fileStat fullPath =
     [FsCreateReadStream fullPath, ResWriteHead 200 (openFile_head cfg fileStat fullPath)]
       @ stream_listeners (fs_createReadStream fs fullPath)"

definition getStatCallback ::
  "config \<Rightarrow> filesystem \<Rightarrow> string \<Rightarrow> string \<Rightarrow> errno + stats \<Rightarrow> run" where
  "getStatCallback cfg fs pathname fullPath result =
     (case result of
        Inl err \<Rightarrow> (tellAboutError 500 ''Cannot open this path.'', None)
      | Inr fileStat \<Rightarrow>
          if isFile fileStat then (openFile cfg fs fileStat fullPath, None)
          else if isDirectory fileStat then listDir cfg fs pathname fullPath
          else (tellAboutError 500 ''Cannot open this path.'', None))"

text \<open>
  The request listener: the paths, \<^verbatim>\<open>fs.exists\<close>, \<^verbatim>\<open>fs.open\<close>, \<^verbatim>\<open>fs.fstat\<close> on the
  descriptor (kept in \<^verbatim>\<open>fileDescriptor\<close> and used for nothing else).
\<close>

definition handler :: "config \<Rightarrow> filesystem \<Rightarrow> string \<Rightarrow> run" where
  "handler cfg fs url_pathname =
     (case request_paths cfg url_pathname of
        Inl exn \<Rightarrow> ([], Some exn)
      | Inr (pathname, fullPath) \<Rightarrow>
          if \<not> fs_exists fs fullPath then
            (FsExists fullPath # tellAboutError 404 ''Page not found.'', None)
          else
            (case fs_open fs fullPath of
               Inl err \<Rightarrow>
                 ([FsExists fullPath, FsOpen fullPath]
                    @ tellAboutError 500 ''Cannot open this path.'', None)
             | Inr fileDescriptor \<Rightarrow>
                 (case getStatCallback cfg fs pathname fullPath
                         (fs_fstat fs fileDescriptor) of
                    (es, exn) \<Rightarrow>
                      ([FsExists fullPath, FsOpen fullPath, FsFstat fileDescriptor] @ es,
                       exn))))"

subsection \<open>Revisions 0.1 and 0.2.1\<close>

definition contentTypes_0_2 :: "(string \<times> string) list" where
  "contentTypes_0_2 =
     [(''.html'', ''text/html; charset='' @ defEnc),
      (''.css'', ''text/css; charset='' @ defEnc),
      (''.js'', ''text/javascript; charset='' @ defEnc),
      (''.txt'', ''text/plain; charset='' @ defEnc),
      (''.png'', ''image/png''),
      (''.jpeg'', ''image/jpeg''),
      (''.jpg'', ''image/jpeg''),
      (''.jpe'', ''image/jpeg''),
      (''.gif'', ''image/gif''),
      (''.svg'', ''image/svg+xml''),
      (''.svgz'', ''image/svg+xml''),
      (''.ico'', ''image/x-icon''),
      (''*'', ''application/octet-stream'')]"

definition listDir_0_2 :: "filesystem \<Rightarrow> string \<Rightarrow> string \<Rightarrow> run" where
  "listDir_0_2 fs pathname fullPath =
     (case fs_readdir fs fullPath of
        Inl err \<Rightarrow>
          (FsReaddir fullPath
             # tellAboutError 500 (''Can'' @ [CHR 0x27] @ ''t read dir.''), None)
      | Inr files \<Rightarrow>
          (case classify fs fullPath files [] [] of
             (es, Inl exn) \<Rightarrow> (FsReaddir fullPath # es, Some exn)
           | (es, Inr (dirsList, filesList)) \<Rightarrow>
               (let html = render_listing pathname dirsList filesList
                in (FsReaddir fullPath # es
                      @ [ResWriteHead 200
                           [(''Content-Type'', HStr ''text/html; charset=utf-8'')],
                         ResEnd html],
                    None))))"

text \<open>
  \<^verbatim>\<open>openFile\<close> of these revisions reads the whole file; its loop over \<^verbatim>\<open>contentTypes\<close>
  answers at the first key equal to the extension.
\<close>

definition openFile_0_2 :: "filesystem \<Rightarrow> string \<Rightarrow> effect list" where
  "openFile_0_2 fs fullPath =
     (case fs_readFile fs fullPath of
        Inl err \<Rightarrow>
          FsReadFile fullPath
            # tellAboutError 500 (''Can'' @ [CHR 0x27] @ ''t open the file.'')
      | Inr data \<Rightarrow>
          FsReadFile fullPath #
          (case find (\<lambda>(ext, contentType). ext \<noteq> ''*'' \<and> ext = extname fullPath)
                  contentTypes_0_2 of
             Some (ext, contentType) \<Rightarrow>
               [ResWriteHead 200 [(''Content-Type'', HStr contentType)], ResEnd data]
           | None \<Rightarrow>
               (case map_of contentTypes_0_2 ''*'' of
                  Some contentType \<Rightarrow>
                    [ResWriteHead 200 [(''Content-Type'', HStr contentType)], ResEnd data]
                | None \<Rightarrow> [ResEnd data])))"

text \<open>
  The callback of \<^verbatim>\<open>fs.stat\<close> does not look at \<^verbatim>\<open>err\<close>: on an error \<^verbatim>\<open>stat\<close> is
  \<^verbatim>\<open>undefined\<close> and \<^verbatim>\<open>stat.isFile()\<close> throws.
\<close>

definition handler_0_2 :: "config \<Rightarrow> filesystem \<Rightarrow> string \<Rightarrow> run" where
  "handler_0_2 cfg fs url_pathname =
     (case request_paths cfg url_pathname of
        Inl exn \<Rightarrow> ([], Some exn)
      | Inr (pathname, fullPath) \<Rightarrow>
          if \<not> fs_exists fs fullPath then
            (FsExists fullPath # tellAboutError 404 ''Path not found.'', None)
          else
            (case fs_stat fs fullPath of
               Inl err \<Rightarrow> ([FsExists fullPath, FsStat fullPath], Some TypeError)
             | Inr stat \<Rightarrow>
                 if isFile stat then
                   ([FsExists fullPath, FsStat fullPath] @ openFile_0_2 fs fullPath, None)
                 else if isDirectory stat then
                   (case listDir_0_2 fs pathname fullPath of
                      (es, exn) \<Rightarrow> ([FsExists fullPath, FsStat fullPath] @ es, exn))
                 else
                   ([FsExists fullPath, FsStat fullPath]
                      @ tellAboutError 500 ''Unknown type of inode.'', None)))"

subsection \<open>Reading a run\<close>

text \<open>The calls of \<^verbatim>\<open>res.writeHead\<close> of a run, in order.\<close>

fun writeHeads :: "effect list \<Rightarrow> (nat \<times> headers) list" where
  "writeHeads [] = []"
| "writeHeads (ResWriteHead status head # es) = (status, head) # writeHeads es"
| "writeHeads (e # es) = writeHeads es"

text \<open>The body: what \<^verbatim>\<open>res.write\<close> and \<^verbatim>\<open>res.end\<close> were given, in order.\<close>

fun body_written :: "effect list \<Rightarrow> string" where
  "body_written [] = []"
| "body_written (ResWrite chunk # es) = chunk @ body_written es"
| "body_written (ResEnd data # es) = data @ body_written es"
| "body_written (e # es) = body_written es"

text \<open>The status and the headers of the response: those of the first \<^verbatim>\<open>writeHead\<close>.\<close>

definition response_status :: "run \<Rightarrow> nat option" where
  "response_status r =
     (case writeHeads (fst r) of [] \<Rightarrow> None | (status, head) # _ \<Rightarrow> Some status)"

definition response_header :: "run \<Rightarrow> string \<Rightarrow> header_value option" where
  "response_header r name =
     (case writeHeads (fst r) of [] \<Rightarrow> None | (status, head) # _ \<Rightarrow> map_of head name)"

definition response_body :: "run \<Rightarrow> string" where
  "response_body r = body_written (fst r)"

text \<open>The calls on the file system (not on the response).\<close>

fun is_fs_call :: "effect \<Rightarrow> bool" where
  "is_fs_call (ResWriteHead status head) = False"
| "is_fs_call (ResWrite chunk) = False"
| "is_fs_call (ResEnd data) = False"
| "is_fs_call e = True"

text \<open>The calls that open or close a descriptor.\<close>

fun opens_or_closes :: "effect \<Rightarrow> bool" where
  "opens_or_closes (FsOpen path) = True"
| "opens_or_closes (FsClose fd) = True"
| "opens_or_closes e = False"

text \<open>
  The descriptors that \<^verbatim>\<open>fs.open\<close> has handed to the script and that no \<^verbatim>\<open>fs.close\<close>
  has given back. (The descriptor inside a read stream belongs to the stream, which closes
  it itself.)
\<close>

fun descriptors_open :: "filesystem \<Rightarrow> effect list \<Rightarrow> nat list \<Rightarrow> nat list" where
  "descriptors_open fs [] fds = fds"
| "descriptors_open fs (FsOpen path # es) fds =
     descriptors_open fs es
       (case fs_open fs path of Inl err \<Rightarrow> fds | Inr fd \<Rightarrow> fds @ [fd])"
| "descriptors_open fs (FsClose fd # es) fds = descriptors_open fs es (remove1 fd fds)"
| "descriptors_open fs (e # es) fds = descriptors_open fs es fds"

subsection \<open>File systems for the examples\<close>

text \<open>
  A file system at rest, given as a table from absolute paths to what is there. It
  answers the calls of the \<^verbatim>\<open>fs\<close> module as a POSIX system does: a path with slashes at
  its end names a directory or nothing; \<^verbatim>\<open>exists\<close>, \<^verbatim>\<open>open\<close>, \<^verbatim>\<open>stat\<close> and
  \<^verbatim>\<open>statSync\<close> follow a symbolic link, so a link without a target is \<^verbatim>\<open>ENOENT\<close> to
  them while \<^verbatim>\<open>readdir\<close> of its directory still lists its name; the descriptor of the
  \<open>i\<close>-th entry is \<open>3 + i\<close>; a file is read as one chunk.
\<close>

datatype node =
    RegularFile string
  | Dir "string list"
  | Special inode_kind
  | DanglingLink

definition node_at :: "(string \<times> node) list \<Rightarrow> string \<Rightarrow> node option" where
  "node_at table p =
     (let q = rev (dropWhile (\<lambda>c. c = CHR ''/'') (rev p)) in
      case map_of table q of
        None \<Rightarrow> None
      | Some DanglingLink \<Rightarrow> None
      | Some (Dir names) \<Rightarrow> Some (Dir names)
      | Some n \<Rightarrow> (if q = p then Some n else None))"

definition stats_of :: "node \<Rightarrow> stats" where
  "stats_of n =
     (case n of
        RegularFile bytes \<Rightarrow> \<lparr>st_kind = S_IFREG, st_size = length bytes\<rparr>
      | Dir names \<Rightarrow> \<lparr>st_kind = S_IFDIR, st_size = 4096\<rparr>
      | Special k \<Rightarrow> \<lparr>st_kind = k, st_size = 0\<rparr>
      | DanglingLink \<Rightarrow> \<lparr>st_kind = S_IFREG, st_size = 0\<rparr>)"

definition stat_at :: "(string \<times> node) list \<Rightarrow> string \<Rightarrow> errno + stats" where
  "stat_at table p =
     (case node_at table p of None \<Rightarrow> Inl ENOENT | Some n \<Rightarrow> Inr (stats_of n))"

fun index_of :: "string \<Rightarrow> (string \<times> node) list \<Rightarrow> nat" where
  "index_of p [] = 0"
| "index_of p ((q, n) # table) = (if p = q then 0 else Suc (index_of p table))"

definition filesystem_of :: "(string \<times> node) list \<Rightarrow> filesystem" where
  "filesystem_of table =
     \<lparr>fs_exists = (\<lambda>p. node_at table p \<noteq> None),
      fs_open =
        (\<lambda>p. case node_at table p of
                None \<Rightarrow> Inl ENOENT
              | Some n \<Rightarrow>
                  Inr (3 + index_of (rev (dropWhile (\<lambda>c. c = CHR ''/'') (rev p))) table)),
      fs_fstat =
        (\<lambda>fd. if 3 \<le> fd \<and> fd - 3 < length table
               then Inr (stats_of (snd (table ! (fd - 3)))) else Inl EIO),
      fs_stat = stat_at table,
      fs_statSync = stat_at table,
      fs_readdir =
        (\<lambda>p. case node_at table p of
                None \<Rightarrow> Inl ENOENT
              | Some (Dir names) \<Rightarrow> Inr names
              | Some n \<Rightarrow> Inl ENOTDIR),
      fs_readFile =
        (\<lambda>p. case node_at table p of
                None \<Rightarrow> Inl ENOENT
              | Some (RegularFile bytes) \<Rightarrow> Inr bytes
              | Some n \<Rightarrow> Inl EIO),
      fs_createReadStream =
        (\<lambda>p. case node_at table p of
                None \<Rightarrow> [ReadError ENOENT]
              | Some (RegularFile bytes) \<Rightarrow>
                  (if bytes = [] then [End] else [Data bytes, End])
              | Some n \<Rightarrow> [ReadError EIO])\<rparr>"

text \<open>
  The scenario of the specification: the root holds \<^verbatim>\<open>a.txt\<close> with content \<^verbatim>\<open>hi\<close>
  and an empty directory \<^verbatim>\<open>sub\<close>.
\<close>

definition www :: config where
  "www = \<lparr>filesPath = ''/srv/www'', noCache = False\<rparr>"

definition small_site :: "(string \<times> node) list" where
  "small_site =
     [(''/srv/www'', Dir [''a.txt'', ''sub'']),
      (''/srv/www/a.txt'', RegularFile ''hi''),
      (''/srv/www/sub'', Dir [])]"

definition media_site :: "(string \<times> node) list" where
  "media_site =
     [(''/srv/www'', Dir [''README'', ''image.PNG'', ''image.png'', ''notes.xyz'']),
      (''/srv/www/README'', RegularFile ''read me''),
      (''/srv/www/image.PNG'', RegularFile ''PNG1''),
      (''/srv/www/image.png'', RegularFile ''PNG2''),
      (''/srv/www/notes.xyz'', RegularFile ''xyz'')]"

definition docs_site :: "(string \<times> node) list" where
  "docs_site =
     [(''/srv/www'', Dir [''docs'']),
      (''/srv/www/docs'', Dir [''zeta.txt'', ''beta'', ''alpha'', ''b.md'', ''Alpha'']),
      (''/srv/www/docs/zeta.txt'', RegularFile ''z''),
      (''/srv/www/docs/beta'', Dir []),
      (''/srv/www/docs/alpha'', RegularFile ''a''),
      (''/srv/www/docs/b.md'', RegularFile ''b''),
      (''/srv/www/docs/Alpha'', Dir [])]"

definition dollar_site :: "(string \<times> node) list" where
  "dollar_site =
     [(''/srv/www'', Dir [''cash$$.txt'']),
      (''/srv/www/cash$$.txt'', RegularFile ''100'')]"

text \<open>
  Two names beyond ASCII: the fullwidth tilde U+FF5E (UTF-16 \<^verbatim>\<open>FF5E\<close>) and the grinning
  face U+1F600 (UTF-16 \<^verbatim>\<open>D83D DE00\<close>), as their UTF-8 octets.
\<close>

definition fullwidth_tilde :: string where
  "fullwidth_tilde = [CHR 0xEF, CHR 0xBD, CHR 0x9E]"

definition grinning_face :: string where
  "grinning_face = [CHR 0xF0, CHR 0x9F, CHR 0x98, CHR 0x80]"

definition wide_site :: "(string \<times> node) list" where
  "wide_site =
     [(''/srv/www'', Dir [fullwidth_tilde, grinning_face]),
      (''/srv/www/'' @ fullwidth_tilde, RegularFile ''tilde''),
      (''/srv/www/'' @ grinning_face, RegularFile ''face'')]"

definition devices_site :: "(string \<times> node) list" where
  "devices_site =
     [(''/srv/www'', Dir [''a.txt'', ''fifo'', ''sock'', ''sub'', ''tty'']),
      (''/srv/www/a.txt'', RegularFile ''hi''),
      (''/srv/www/fifo'', Special S_IFIFO),
      (''/srv/www/sock'', Special S_IFSOCK),
      (''/srv/www/sub'', Dir []),
      (''/srv/www/tty'', Special S_IFCHR)]"

text \<open>\<open>small_site\<close> with a symbolic link \<^verbatim>\<open>latest\<close> whose target is gone.\<close>

definition dangling_site :: "(string \<times> node) list" where
  "dangling_site =
     [(''/srv/www'', Dir [''a.txt'', ''latest'', ''sub'']),
      (''/srv/www/a.txt'', RegularFile ''hi''),
      (''/srv/www/latest'', DanglingLink),
      (''/srv/www/sub'', Dir [])]"

text \<open>
  \<open>small_site\<close> with its root readable but not searchable: the directory can be listed,
  its children cannot be examined (\<^verbatim>\<open>EACCES\<close>).
\<close>

definition unsearchable_fs :: filesystem where
  "unsearchable_fs =
     (filesystem_of small_site)
       \<lparr>fs_statSync := (\<lambda>p. if p = ''/srv/www'' then stat_at small_site p else Inl EACCES)\<rparr>"

text \<open>\<open>small_site\<close> on a disk that fails after the first byte of \<^verbatim>\<open>a.txt\<close>.\<close>

definition failing_disk_fs :: filesystem where
  "failing_disk_fs =
     (filesystem_of small_site)
       \<lparr>fs_createReadStream := (\<lambda>p. [Data ''h'', ReadError EIO])\<rparr>"

subsection \<open>The words of the specification\<close>

text \<open>
  The decoded path as the specification words it: percent-decode the path, then replace
  every \<^verbatim>\<open>+\<close> by a space, then remove every slash in front.
\<close>

definition spec_decodedPath :: "string \<Rightarrow> js_error + string" where
  "spec_decodedPath rawPath =
     (case decodeURIComponent rawPath of
        Inl exn \<Rightarrow> Inl exn
      | Inr decoded \<Rightarrow>
          Inr (dropWhile (\<lambda>c. c = CHR ''/'')
                 (map (\<lambda>c. if c = CHR ''+'' then CHR '' '' else c) decoded)))"

text \<open>
  The extension as the specification words it: the part of the final path segment from
  its last dot on, the dot included; empty when the segment has no dot.
\<close>

definition spec_extension :: "string \<Rightarrow> string" where
  "spec_extension p =
     (let trimmed = rev (dropWhile (\<lambda>c. c = CHR ''/'') (rev p));
          base = rev (takeWhile (\<lambda>c. c \<noteq> CHR ''/'') (rev trimmed))
      in if CHR ''.'' \<in> set base
         then CHR ''.'' # rev (takeWhile (\<lambda>c. c \<noteq> CHR ''.'') (rev base))
         else [])"

text \<open>
  One entry of a listing as the specification words it: the tag, an anchor whose
  \<^verbatim>\<open>href\<close> is the link, and the title; and the page around the entries, with the
  requested path in title and heading.
\<close>

definition spec_entry :: "string \<Rightarrow> string \<Rightarrow> string \<Rightarrow> string" where
  \<open>spec_entry tag href title =
     ''<li>'' @ tag @ '' <a href="'' @ href @ ''">'' @ title @ ''</a></li>''\<close>

definition spec_page :: "string \<Rightarrow> string \<Rightarrow> string" where
  \<open>spec_page shown entries =
     ''<!doctype html><html><head><meta charset="utf-8"><title>Directory "'' @ shown
     @ ''"</title></head><body><h1>Directory "'' @ shown @ ''"</h1><ul>'' @ entries
     @ ''</ul></body></html>''\<close>

text \<open>
  What \<^verbatim>\<open>fs.statSync\<close> says a child of the directory \<open>fullPath\<close> is, if it says
  anything; and whether that makes the child a directory or a regular file.
\<close>

definition child_kind :: "filesystem \<Rightarrow> string \<Rightarrow> string \<Rightarrow> inode_kind option" where
  "child_kind fs fullPath file =
     (case fs_statSync fs (path_join fullPath file) of
        Inl err \<Rightarrow> None
      | Inr stat \<Rightarrow> Some (st_kind stat))"

definition is_listed :: "filesystem \<Rightarrow> string \<Rightarrow> string \<Rightarrow> bool" where
  "is_listed fs fullPath file =
     (child_kind fs fullPath file = Some S_IFDIR \<or> child_kind fs fullPath file = Some S_IFREG)"

text \<open>The calls on the response object only.\<close>

definition res_calls :: "run \<Rightarrow> effect list" where
  "res_calls r = filter (\<lambda>e. \<not> is_fs_call e) (fst r)"

section \<open>Supporting lemmas\<close>

declare string_of_nat.simps [simp del]

declare strip_leading_slashes.simps [simp del]

lemma string_of_nat_404: "string_of_nat 404 = ''404''"
  by code_simp

lemma string_of_nat_500: "string_of_nat 500 = ''500''"
  by code_simp

lemma strip_leading_slashes_dropWhile:
  "strip_leading_slashes p = dropWhile (\<lambda>c. c = CHR ''/'') p"
proof (induction p)
  case Nil
  show ?case by (subst strip_leading_slashes.simps) simp
next
  case (Cons c cs)
  then show ?case by (subst strip_leading_slashes.simps) simp
qed

lemma split_chr_not_Nil: "split_chr sep s \<noteq> []"
  by (induction s) (auto split: list.splits)

lemma join_str_Cons_head: "join_str sep ((c # p) # ps) = c # join_str sep (p # ps)"
  by (cases ps) simp_all

lemma join_split_chr:
  "join_str [r] (split_chr sep s) = map (\<lambda>c. if c = sep then r else c) s"
proof (induction s)
  case Nil
  show ?case by simp
next
  case (Cons c cs)
  obtain p ps where ps: "split_chr sep cs = p # ps"
    using split_chr_not_Nil [of sep cs] by (cases "split_chr sep cs") auto
  with Cons show ?case by (simp add: join_str_Cons_head)
qed

lemma map_of_obj_set:
  "map_of (obj_set head key v) k = (if k = key then Some v else map_of head k)"
  by (induction head key v rule: obj_set.induct) auto

lemma map_of_no_cache_headers:
  "k \<notin> {''Cache-Control'', ''Pragma'', ''Expires''} \<Longrightarrow>
   map_of (no_cache_headers cfg head) k = map_of head k"
  by (simp add: no_cache_headers_def map_of_obj_set)

text \<open>The loop over \<^verbatim>\<open>contentTypes\<close> touches no header but the content type.\<close>

lemma content_type_loop_other:
  "k \<noteq> ''Content-Type'' \<Longrightarrow>
   map_of (foldl (\<lambda>head (ext, contentType).
                    if ext = ''*'' then head
                    else if ext = e then obj_set head ''Content-Type'' (HStr contentType)
                    else head) head cts) k = map_of head k"
  by (induction cts arbitrary: head) (auto simp: map_of_obj_set)

lemma content_type_loop_no_match:
  "e \<notin> fst ` set cts \<Longrightarrow>
   foldl (\<lambda>head (ext, contentType).
            if ext = ''*'' then head
            else if ext = e then obj_set head ''Content-Type'' (HStr contentType)
            else head) head cts = head"
  by (induction cts arbitrary: head) auto

lemma content_type_loop_string:
  "map_of head ''Content-Type'' = None \<or> (\<exists>ct. map_of head ''Content-Type'' = Some (HStr ct)) \<Longrightarrow>
   map_of (foldl (\<lambda>head (ext, contentType).
                    if ext = ''*'' then head
                    else if ext = e then obj_set head ''Content-Type'' (HStr contentType)
                    else head) head cts) ''Content-Type'' = None
   \<or> (\<exists>ct. map_of (foldl (\<lambda>head (ext, contentType).
                    if ext = ''*'' then head
                    else if ext = e then obj_set head ''Content-Type'' (HStr contentType)
                    else head) head cts) ''Content-Type'' = Some (HStr ct))"
proof (induction cts arbitrary: head)
  case Nil
  then show ?case by simp
next
  case (Cons a cts)
  obtain ext ct where a: "a = (ext, ct)" by (cases a)
  show ?case
    unfolding a foldl_Cons
    by (rule Cons.IH) (use Cons.prems in \<open>auto simp: map_of_obj_set\<close>)
qed

lemma fallback_content_type: "map_of contentTypes ''*'' = Some ''application/octet-stream''"
  by (simp add: contentTypes_def)

lemma openFile_head_content_length:
  "map_of (openFile_head cfg fileStat fullPath) ''Content-Length''
     = Some (HNum (st_size fileStat))"
  by (simp add: openFile_head_def Let_def map_of_obj_set content_type_loop_other
      map_of_no_cache_headers split: option.splits)

lemma openFile_head_has_content_type:
  "\<exists>ct. map_of (openFile_head cfg fileStat fullPath) ''Content-Type'' = Some (HStr ct)"
proof -
  let ?h0 = "no_cache_headers cfg (obj_set [] ''Content-Length'' (HNum (st_size fileStat)))"
  have "map_of ?h0 ''Content-Type'' = None"
    by (simp add: map_of_no_cache_headers)
  then have "map_of ?h0 ''Content-Type'' = None
      \<or> (\<exists>ct. map_of ?h0 ''Content-Type'' = Some (HStr ct))"
    by simp
  from content_type_loop_string [OF this, of "extname fullPath" contentTypes]
  show ?thesis
    by (auto simp: openFile_head_def Let_def fallback_content_type map_of_obj_set)
qed

lemma openFile_head_fallback:
  assumes "extname fullPath \<notin> fst ` set contentTypes"
  shows "map_of (openFile_head cfg fileStat fullPath) ''Content-Type''
     = Some (HStr ''application/octet-stream'')"
  by (simp add: openFile_head_def Let_def content_type_loop_no_match [OF assms]
      map_of_no_cache_headers map_of_obj_set fallback_content_type)

lemma stream_listeners_data:
  "stream_listeners (map Data chunks @ events)
     = map ResWrite chunks @ stream_listeners events"
  by (induction chunks) auto

lemma writeHeads_append: "writeHeads (es @ es') = writeHeads es @ writeHeads es'"
  by (induction es rule: writeHeads.induct) auto

lemma body_written_append: "body_written (es @ es') = body_written es @ body_written es'"
  by (induction es rule: body_written.induct) auto

lemma writeHeads_writes: "writeHeads (map ResWrite chunks) = []"
  by (induction chunks) auto

lemma body_written_writes: "body_written (map ResWrite chunks) = concat chunks"
  by (induction chunks) auto

text \<open>The run of a request whose path is a regular file, whatever the stream does.\<close>

lemma handler_regular_file:
  assumes "request_paths cfg url_pathname = Inr (pathname, fullPath)"
    and "fs_exists fs fullPath"
    and "fs_open fs fullPath = Inr fd"
    and "fs_fstat fs fd = Inr fileStat"
    and "isFile fileStat"
  shows "handler cfg fs url_pathname =
      ([FsExists fullPath, FsOpen fullPath, FsFstat fd, FsCreateReadStream fullPath,
        ResWriteHead 200 (openFile_head cfg fileStat fullPath)]
         @ stream_listeners (fs_createReadStream fs fullPath), None)"
  using assms by (simp add: handler_def getStatCallback_def openFile_def)

text \<open>Replacing where the replacement has no dollar sign and the pattern is found.\<close>

lemma expand_replacement_plain:
  "CHR ''$'' \<notin> set rep \<Longrightarrow> expand_replacement rep matched pre post = rep"
  by (induction rep matched pre post rule: expand_replacement.induct) auto

lemma replace_from_skip:
  "h \<notin> set a \<Longrightarrow>
   replace_from (h # t) rep pre (a @ s) = a @ replace_from (h # t) rep (pre @ a) s"
proof (induction a arbitrary: pre)
  case Nil
  show ?case by simp
next
  case (Cons c a)
  then show ?case by auto
qed

lemma replace_type:
  assumes "CHR ''$'' \<notin> set tag"
  shows "js_replace ''#TYPE#'' tag listElementTemplate
      = ''<li>'' @ tag @ '' <a href=\"#LINK#\">#TITLE#</a></li>''"
  using assms
  by (simp add: js_replace_def listElementTemplate_def expand_replacement_plain)

lemma replace_link:
  assumes "CHR ''$'' \<notin> set link" "CHR ''#'' \<notin> set tag"
  shows "js_replace ''#LINK#'' link (''<li>'' @ tag @ '' <a href=\"#LINK#\">#TITLE#</a></li>'')
      = ''<li>'' @ tag @ '' <a href=\"'' @ link @ ''\">#TITLE#</a></li>''"
proof -
  have "js_replace ''#LINK#'' link
          ((''<li>'' @ tag @ '' <a href=\"'') @ ''#LINK#\">#TITLE#</a></li>'')
      = (''<li>'' @ tag @ '' <a href=\"'') @ link @ ''\">#TITLE#</a></li>''"
    unfolding js_replace_def
    by (subst replace_from_skip) (use assms in \<open>simp_all add: expand_replacement_plain\<close>)
  then show ?thesis by simp
qed

lemma replace_title:
  assumes "CHR ''$'' \<notin> set title" "CHR ''#'' \<notin> set tag" "CHR ''#'' \<notin> set link"
  shows "js_replace ''#TITLE#'' title
           (''<li>'' @ tag @ '' <a href=\"'' @ link @ ''\">#TITLE#</a></li>'')
      = ''<li>'' @ tag @ '' <a href=\"'' @ link @ ''\">'' @ title @ ''</a></li>''"
proof -
  have "js_replace ''#TITLE#'' title
          ((''<li>'' @ tag @ '' <a href=\"'' @ link @ ''\">'') @ ''#TITLE#</a></li>'')
      = (''<li>'' @ tag @ '' <a href=\"'' @ link @ ''\">'') @ title @ ''</a></li>''"
    unfolding js_replace_def
    by (subst replace_from_skip) (use assms in \<open>simp_all add: expand_replacement_plain\<close>)
  then show ?thesis by simp
qed

lemma list_element_plain:
  assumes "CHR ''$'' \<notin> set tag" "CHR ''#'' \<notin> set tag"
    and "CHR ''$'' \<notin> set link" "CHR ''#'' \<notin> set link"
    and "CHR ''$'' \<notin> set title"
  shows "list_element tag link title = spec_entry tag link title"
  unfolding list_element_def spec_entry_def
  by (simp only: replace_type [OF assms(1)] replace_link [OF assms(3) assms(2)]
      replace_title [OF assms(5) assms(2) assms(4)])

lemma replace_pathname:
  assumes "CHR ''$'' \<notin> set shown"
  shows "js_replace ''#PATHNAME#'' shown template
      = ''<!doctype html><html><head><meta charset=\"utf-8\"><title>Directory \"'' @ shown
        @ ''\"</title></head><body><h1>Directory \"'' @ shown
        @ ''\"</h1><ul>#LIST_ELEMENTS#</ul></body></html>''"
  using assms
  by (simp add: js_replace_def template_def expand_replacement_plain)

lemma replace_list_elements:
  assumes "CHR ''$'' \<notin> set entries" "CHR ''#'' \<notin> set shown"
  shows "js_replace ''#LIST_ELEMENTS#'' entries
           (''<!doctype html><html><head><meta charset=\"utf-8\"><title>Directory \"'' @ shown
            @ ''\"</title></head><body><h1>Directory \"'' @ shown
            @ ''\"</h1><ul>#LIST_ELEMENTS#</ul></body></html>'')
      = spec_page shown entries"
proof -
  have "js_replace ''#LIST_ELEMENTS#'' entries
          ((''<!doctype html><html><head><meta charset=\"utf-8\"><title>Directory \"'' @ shown
            @ ''\"</title></head><body><h1>Directory \"'' @ shown @ ''\"</h1><ul>'')
           @ ''#LIST_ELEMENTS#</ul></body></html>'')
      = (''<!doctype html><html><head><meta charset=\"utf-8\"><title>Directory \"'' @ shown
          @ ''\"</title></head><body><h1>Directory \"'' @ shown @ ''\"</h1><ul>'')
         @ entries @ ''</ul></body></html>''"
    unfolding js_replace_def
    by (subst replace_from_skip) (use assms in \<open>simp_all add: expand_replacement_plain\<close>)
  then show ?thesis by (simp add: spec_page_def)
qed

lemma foldl_append_entries:
  "foldl (\<lambda>acc name. acc @ f name) acc names = acc @ concat (map f names)"
  by (induction names arbitrary: acc) auto

lemma dollar_entry:
  "CHR ''$'' \<notin> set (spec_entry tag href title)
     \<longleftrightarrow> CHR ''$'' \<notin> set tag \<and> CHR ''$'' \<notin> set href \<and> CHR ''$'' \<notin> set title"
  by (auto simp: spec_entry_def)

text \<open>
  The page of \<^verbatim>\<open>listDir\<close> when neither the names nor the path hold a dollar sign or a
  number sign: the template with the path and the entries in their places.
\<close>

lemma render_listing_plain:
  assumes names: "\<forall>name \<in> set dirsList \<union> set filesList.
                    CHR ''$'' \<notin> set name \<and> CHR ''#'' \<notin> set name"
    and path: "CHR ''$'' \<notin> set pathname" "CHR ''#'' \<notin> set pathname"
  shows "render_listing pathname dirsList filesList =
     spec_page (''/'' @ pathname)
       ((if pathname \<noteq> [] \<and> pathname \<noteq> ''/'' then spec_entry ''[D]'' ''./..'' ''..'' else [])
        @ concat (map (\<lambda>name. spec_entry ''[D]'' (''./'' @ name @ ''/'') name) (sort_key utf16_units dirsList))
        @ concat (map (\<lambda>name. spec_entry ''[F]'' (''./'' @ name) name) (sort_key utf16_units filesList)))"
proof -
  have d: "list_element ''[D]'' (''./'' @ name @ ''/'') name
      = spec_entry ''[D]'' (''./'' @ name @ ''/'') name"
    if "name \<in> set dirsList" for name
    using names that by (intro list_element_plain) auto
  have f: "list_element ''[F]'' (''./'' @ name) name = spec_entry ''[F]'' (''./'' @ name) name"
    if "name \<in> set filesList" for name
    using names that by (intro list_element_plain) auto
  have u: "list_element ''[D]'' ''./..'' ''..'' = spec_entry ''[D]'' ''./..'' ''..''"
    by (intro list_element_plain) auto
  have md: "map (\<lambda>name. list_element ''[D]'' (''./'' @ name @ ''/'') name) (sort_key utf16_units dirsList)
      = map (\<lambda>name. spec_entry ''[D]'' (''./'' @ name @ ''/'') name) (sort_key utf16_units dirsList)"
    using d by (intro map_cong) auto
  have mf: "map (\<lambda>name. list_element ''[F]'' (''./'' @ name) name) (sort_key utf16_units filesList)
      = map (\<lambda>name. spec_entry ''[F]'' (''./'' @ name) name) (sort_key utf16_units filesList)"
    using f by (intro map_cong) auto
  let ?entries =
    "(if pathname \<noteq> [] \<and> pathname \<noteq> ''/'' then spec_entry ''[D]'' ''./..'' ''..'' else [])
       @ concat (map (\<lambda>name. spec_entry ''[D]'' (''./'' @ name @ ''/'') name) (sort_key utf16_units dirsList))
       @ concat (map (\<lambda>name. spec_entry ''[F]'' (''./'' @ name) name) (sort_key utf16_units filesList))"
  have e: "CHR ''$'' \<notin> set ?entries"
    using names by (auto simp: dollar_entry)
  have "render_listing pathname dirsList filesList =
      js_replace ''#LIST_ELEMENTS#'' ?entries
        (js_replace ''#PATHNAME#'' (''/'' @ pathname) template)"
    by (simp only: render_listing_def Let_def foldl_append_entries md mf u append_assoc)
  also have "\<dots> = spec_page (''/'' @ pathname) ?entries"
    using e path by (subst replace_pathname, simp, subst replace_list_elements, simp_all)
  finally show ?thesis .
qed

text \<open>The loop over the children when every child can be examined.\<close>

lemma classify_all_examined:
  assumes "None \<notin> set (map (child_kind fs fullPath) files)"
  shows "classify fs fullPath files dirsList filesList =
           (map (\<lambda>file. FsStatSync (path_join fullPath file)) files,
            Inr (dirsList @ filter (\<lambda>file. child_kind fs fullPath file = Some S_IFDIR) files,
                 filesList @ filter (\<lambda>file. child_kind fs fullPath file = Some S_IFREG) files))"
  using assms
proof (induction files arbitrary: dirsList filesList)
  case Nil
  show ?case by simp
next
  case (Cons child children)
  then show ?case
    by (auto simp: child_kind_def isDirectory_def isFile_def Let_def split: sum.splits)
qed

text \<open>The run of a request whose path is a directory all of whose children can be examined.\<close>

lemma handler_directory:
  assumes "request_paths cfg url_pathname = Inr (pathname, fullPath)"
    and "fs_exists fs fullPath"
    and "fs_open fs fullPath = Inr fd"
    and "fs_fstat fs fd = Inr fileStat"
    and "isDirectory fileStat"
    and "fs_readdir fs fullPath = Inr files"
    and "None \<notin> set (map (child_kind fs fullPath) files)"
  shows "handler cfg fs url_pathname =
      ([FsExists fullPath, FsOpen fullPath, FsFstat fd, FsReaddir fullPath]
         @ map (\<lambda>file. FsStatSync (path_join fullPath file)) files
         @ [ResWriteHead 200
              (no_cache_headers cfg
                 [(''Content-Type'', HStr ''text/html; charset=utf-8''),
                  (''Content-Length'',
                   HNum (length (render_listing pathname
                     (filter (\<lambda>file. child_kind fs fullPath file = Some S_IFDIR) files)
                     (filter (\<lambda>file. child_kind fs fullPath file = Some S_IFREG) files))))]),
            ResEnd (render_listing pathname
                     (filter (\<lambda>file. child_kind fs fullPath file = Some S_IFDIR) files)
                     (filter (\<lambda>file. child_kind fs fullPath file = Some S_IFREG) files))],
       None)"
proof -
  have "\<not> isFile fileStat"
    using assms(5) by (simp add: isFile_def isDirectory_def)
  then show ?thesis
    using assms(1-6)
    by (simp add: handler_def getStatCallback_def listDir_def Let_def
        classify_all_examined [OF assms(7)])
qed

lemma handler_0_2_directory:
  assumes "request_paths cfg url_pathname = Inr (pathname, fullPath)"
    and "fs_exists fs fullPath"
    and "fs_stat fs fullPath = Inr stat"
    and "isDirectory stat"
    and "fs_readdir fs fullPath = Inr files"
    and "None \<notin> set (map (child_kind fs fullPath) files)"
  shows "handler_0_2 cfg fs url_pathname =
      ([FsExists fullPath, FsStat fullPath, FsReaddir fullPath]
         @ map (\<lambda>file. FsStatSync (path_join fullPath file)) files
         @ [ResWriteHead 200 [(''Content-Type'', HStr ''text/html; charset=utf-8'')],
            ResEnd (render_listing pathname
                     (filter (\<lambda>file. child_kind fs fullPath file = Some S_IFDIR) files)
                     (filter (\<lambda>file. child_kind fs fullPath file = Some S_IFREG) files))],
       None)"
proof -
  have "\<not> isFile stat"
    using assms(4) by (simp add: isFile_def isDirectory_def)
  then show ?thesis
    using assms(1-5)
    by (simp add: handler_0_2_def listDir_0_2_def Let_def
        classify_all_examined [OF assms(6)])
qed

lemma writeHeads_stats:
  "writeHeads (map (\<lambda>file. FsStatSync (f file)) files) = []"
  by (induction files) auto

lemma body_written_stats:
  "body_written (map (\<lambda>file. FsStatSync (f file)) files) = []"
  by (induction files) auto

lemma res_calls_stats:
  "filter (\<lambda>e. \<not> is_fs_call e) (map (\<lambda>file. FsStatSync (f file)) files) = []"
  by (induction files) auto

text \<open>For ASCII names the order by UTF-16 code units is the order by octets.\<close>

lemma utf8_code_points_ascii:
  "\<forall>b \<in> set bs. b < 128 \<Longrightarrow> utf8_code_points bs = bs"
  by (induction bs) auto

lemma concat_utf16_small:
  "\<forall>cp \<in> set cps. cp < 65536 \<Longrightarrow> concat (map utf16_of_code_point cps) = cps"
  by (induction cps) (auto simp: utf16_of_code_point_def)

lemma utf16_units_ascii:
  assumes "\<forall>c \<in> set s. of_char c < (128::int)"
  shows "utf16_units s = map of_char s"
proof -
  have points: "utf8_code_points (map of_char s) = map of_char s"
    using assms by (intro utf8_code_points_ascii) auto
  have "\<forall>cp \<in> set (map of_char s :: int list). cp < 65536"
    using assms by fastforce
  from concat_utf16_small [OF this] show ?thesis
    by (simp only: utf16_units_def points)
qed

lemma of_char_less_iff: "(of_char c :: int) < of_char d \<longleftrightarrow> c < d"
proof -
  have "(of_char c :: int) < of_char d \<longleftrightarrow> int (of_char c) < int (of_char d)"
    by (simp add: of_nat_of_char)
  also have "\<dots> \<longleftrightarrow> (of_char c :: nat) < of_char d"
    by (rule of_nat_less_iff)
  also have "\<dots> \<longleftrightarrow> c < d"
    by (simp add: less_char_def)
  finally show ?thesis .
qed

lemma map_of_char_less_iff:
  "(map of_char s :: int list) < map of_char t \<longleftrightarrow> s < t"
proof (induction s arbitrary: t)
  case Nil
  show ?case by (cases t) simp_all
next
  case (Cons c s)
  show ?case
  proof (cases t)
    case Nil
    then show ?thesis by simp
  next
    case (Cons d t')
    with Cons.IH [of t'] show ?thesis
      by (simp add: of_char_less_iff)
  qed
qed

lemma map_of_char_le_iff:
  "(map of_char s :: int list) \<le> map of_char t \<longleftrightarrow> s \<le> t"
proof -
  have "(map of_char s :: int list) = map of_char t \<longleftrightarrow> s = t"
    by (simp add: inj_map_eq_map inj_on_def)
  then show ?thesis
    by (simp add: le_less map_of_char_less_iff)
qed

lemma sorted_ascii_names:
  assumes ascii: "\<forall>c \<in> set (concat names). of_char c < (128::int)"
    and sorted: "sorted (map utf16_units names)"
  shows "sorted names"
proof -
  have key: "utf16_units name = map of_char name" if "name \<in> set names" for name
    using ascii that by (intro utf16_units_ascii) auto
  have "sorted_wrt (\<lambda>x y. utf16_units x \<le> utf16_units y) names"
    using sorted by (simp add: sorted_map)
  then have "sorted_wrt (\<lambda>x y. x \<le> y) names"
    by (rule sorted_wrt_mono_rel [rotated]) (simp add: key map_of_char_le_iff)
  then show ?thesis by simp
qed

text \<open>The models of the platform functions on the examples of their documentation.\<close>

lemma extname_examples:
  "extname ''index.html'' = ''.html''"
  "extname ''index.coffee.md'' = ''.md''"
  "extname ''index.'' = ''.''"
  "extname ''index'' = []"
  "extname ''.index'' = []"
  "extname ''.index.md'' = ''.md''"
  by code_simp+

lemma path_join_examples:
  "path_join ''/foo/bar'' ''baz/asdf/quux/..'' = ''/foo/bar/baz/asdf''"
  "path_join ''/srv/www'' [] = ''/srv/www''"
  "path_join ''/srv/www'' ''sub/'' = ''/srv/www/sub/''"
  "path_join ''/srv/www'' ''../../etc/passwd'' = ''/etc/passwd''"
  by code_simp+

lemma decodeURIComponent_examples:
  "decodeURIComponent ''%3Fx%3Dtest'' = Inr ''?x=test''"
  "decodeURIComponent ''%E0%A4%A'' = Inl URIError"
  "decodeURIComponent ''%'' = Inl URIError"
  "decodeURIComponent ''a%20b'' = Inr ''a b''"
  by code_simp+

lemma js_replace_examples:
  "js_replace ''#X#'' ''<$&>'' ''a#X#b#X#'' = ''a<#X#>b<#X#>''"
  "js_replace ''#X#'' ''$$1'' ''a#X#b'' = ''a$1b''"
  "js_replace ''#X#'' ''$1'' ''a#X#b'' = ''a$1b''"
  by code_simp+

text \<open>The extension of \<^verbatim>\<open>path.extname\<close> is that of the specification, or empty.\<close>

lemma extname_cases: "extname p = spec_extension p \<or> extname p = []"
  by (simp add: extname_def spec_extension_def Let_def)

text \<open>How far the three defects of the claims C7, C8 and C9 reach.\<close>

lemma classify_only_stats:
  "filter (\<lambda>e. \<not> is_fs_call e) (fst (classify fs fullPath files dirsList filesList)) = []"
proof (induction files arbitrary: dirsList filesList)
  case Nil
  show ?case by simp
next
  case (Cons child children)
  show ?case
    using Cons.IH [of "dirsList @ [child]" filesList] Cons.IH [of dirsList "filesList @ [child]"]
      Cons.IH [of dirsList filesList]
    by (simp add: Let_def case_prod_beta split: sum.splits)
qed

lemma classify_stat_failure:
  assumes "None \<in> set (map (child_kind fs fullPath) files)"
  shows "\<exists>err. snd (classify fs fullPath files dirsList filesList) = Inl (FsError err)"
  using assms
proof (induction files arbitrary: dirsList filesList)
  case Nil
  then show ?case by simp
next
  case (Cons child children)
  show ?case
  proof (cases "fs_statSync fs (path_join fullPath child)")
    case (Inl err)
    then show ?thesis by simp
  next
    case (Inr stat)
    with Cons.prems have rest: "None \<in> set (map (child_kind fs fullPath) children)"
      by (simp add: child_kind_def)
    note IH = Cons.IH [OF rest]
    show ?thesis
      using Inr IH [of "dirsList @ [child]" filesList] IH [of dirsList "filesList @ [child]"]
        IH [of dirsList filesList]
      by (simp add: Let_def case_prod_beta)
  qed
qed

text \<open>
  First defect: whenever \<^verbatim>\<open>fs.statSync\<close> throws for a child of the requested directory,
  the run ends with that exception and without a call on \<^verbatim>\<open>res\<close>.
\<close>

lemma stat_failure_no_response:
  assumes "request_paths cfg url_pathname = Inr (pathname, fullPath)"
    and "fs_exists fs fullPath"
    and "fs_open fs fullPath = Inr fd"
    and "fs_fstat fs fd = Inr fileStat"
    and "isDirectory fileStat"
    and "fs_readdir fs fullPath = Inr files"
    and "None \<in> set (map (child_kind fs fullPath) files)"
  shows "res_calls (handler cfg fs url_pathname) = []
       \<and> (\<exists>err. snd (handler cfg fs url_pathname) = Some (FsError err))"
proof -
  have notfile: "\<not> isFile fileStat"
    using assms(5) by (simp add: isFile_def isDirectory_def)
  obtain es r where c: "classify fs fullPath files [] [] = (es, r)"
    by (cases "classify fs fullPath files [] []")
  from classify_stat_failure [OF assms(7), of "[]" "[]"] c
  obtain err where r: "r = Inl (FsError err)" by auto
  from classify_only_stats [of fs fullPath files "[]" "[]"] c
  have es: "filter (\<lambda>e. \<not> is_fs_call e) es = []" by simp
  show ?thesis
    using assms(1-6) notfile c r es
    by (simp add: handler_def getStatCallback_def listDir_def res_calls_def)
qed

text \<open>
  Second defect: whenever the read stream of a regular file emits \<^verbatim>\<open>'error'\<close>,
  \<^verbatim>\<open>res.writeHead\<close> is called at least twice.
\<close>

lemma writeHeads_read_error:
  "ReadError err \<in> set events \<Longrightarrow> writeHeads (stream_listeners events) \<noteq> []"
proof (induction events rule: stream_listeners.induct)
  case 1
  then show ?case by simp
next
  case (2 chunk events)
  then show ?case by simp
next
  case (3 err' events)
  show ?case by (simp add: tellAboutError_def)
next
  case (4 events)
  then show ?case by simp
qed

lemma read_error_second_head:
  assumes "request_paths cfg url_pathname = Inr (pathname, fullPath)"
    and "fs_exists fs fullPath"
    and "fs_open fs fullPath = Inr fd"
    and "fs_fstat fs fd = Inr fileStat"
    and "isFile fileStat"
    and "ReadError err \<in> set (fs_createReadStream fs fullPath)"
  shows "2 \<le> length (writeHeads (fst (handler cfg fs url_pathname)))"
proof -
  from writeHeads_read_error [OF assms(6)]
  have "1 \<le> length (writeHeads (stream_listeners (fs_createReadStream fs fullPath)))"
    by (cases "writeHeads (stream_listeners (fs_createReadStream fs fullPath))") simp_all
  then show ?thesis
    unfolding handler_regular_file [OF assms(1-5)]
    by (simp add: writeHeads_append)
qed

text \<open>
  Third defect: whenever \<^verbatim>\<open>fs.open\<close> succeeds, its descriptor is open at the end of the
  run. No run holds a call of \<^verbatim>\<open>fs.close\<close>, and only the request listener calls
  \<^verbatim>\<open>fs.open\<close>.
\<close>

lemma descriptors_open_unchanged:
  "\<not> list_ex opens_or_closes es \<Longrightarrow> descriptors_open fs es fds = fds"
  by (induction fs es fds rule: descriptors_open.induct) auto

lemma stream_listeners_no_open: "\<not> list_ex opens_or_closes (stream_listeners events)"
  by (induction events rule: stream_listeners.induct) (auto simp: tellAboutError_def)

lemma classify_no_open:
  "\<not> list_ex opens_or_closes (fst (classify fs fullPath files dirsList filesList))"
proof (induction files arbitrary: dirsList filesList)
  case Nil
  show ?case by simp
next
  case (Cons child children)
  show ?case
    using Cons.IH [of "dirsList @ [child]" filesList] Cons.IH [of dirsList "filesList @ [child]"]
      Cons.IH [of dirsList filesList]
    by (simp add: Let_def case_prod_beta split: sum.splits)
qed

lemma classify_effects_no_open:
  "classify fs fullPath files dirsList filesList = (es, r) \<Longrightarrow> \<not> list_ex opens_or_closes es"
  using classify_no_open [of fs fullPath files dirsList filesList] by simp

lemma getStatCallback_no_open:
  "\<not> list_ex opens_or_closes (fst (getStatCallback cfg fs pathname fullPath result))"
  by (auto simp: getStatCallback_def tellAboutError_def openFile_def listDir_def Let_def
      stream_listeners_no_open split: sum.splits prod.splits dest: classify_effects_no_open)

lemma descriptor_never_closed:
  assumes "request_paths cfg url_pathname = Inr (pathname, fullPath)"
    and "fs_exists fs fullPath"
    and "fs_open fs fullPath = Inr fd"
  shows "descriptors_open fs (fst (handler cfg fs url_pathname)) [] = [fd]"
proof -
  obtain es exn where g: "getStatCallback cfg fs pathname fullPath (fs_fstat fs fd) = (es, exn)"
    by (cases "getStatCallback cfg fs pathname fullPath (fs_fstat fs fd)")
  with getStatCallback_no_open [of cfg fs pathname fullPath "fs_fstat fs fd"]
  have "\<not> list_ex opens_or_closes es" by simp
  then have "descriptors_open fs es [fd] = [fd]"
    by (rule descriptors_open_unchanged)
  then show ?thesis
    using assms g by (simp add: handler_def)
qed

text \<open>
  A file system at rest answers a request for a regular file with the file: the
  hypotheses on the \<^verbatim>\<open>fs\<close> module that the claims about files make hold for every
  table and every path at which the table has a regular file.
\<close>

lemma index_of_map_of:
  "map_of table q = Some n \<Longrightarrow>
   index_of q table < length table \<and> snd (table ! index_of q table) = n"
  by (induction table) (auto split: if_splits)

lemma node_at_regular_file:
  assumes "node_at table p = Some (RegularFile bytes)"
  shows "map_of table (rev (dropWhile (\<lambda>c. c = CHR ''/'') (rev p))) = Some (RegularFile bytes)"
  using assms
  by (auto simp: node_at_def Let_def split: option.splits node.splits if_splits)

lemma regular_file_at_rest:
  assumes "request_paths cfg url_pathname = Inr (pathname, fullPath)"
    and "node_at table fullPath = Some (RegularFile bytes)"
  shows "response_status (handler cfg (filesystem_of table) url_pathname) = Some 200
       \<and> response_header (handler cfg (filesystem_of table) url_pathname) ''Content-Length''
           = Some (HNum (length bytes))
       \<and> response_body (handler cfg (filesystem_of table) url_pathname) = bytes"
proof -
  let ?fs = "filesystem_of table"
  let ?q = "rev (dropWhile (\<lambda>c. c = CHR ''/'') (rev fullPath))"
  let ?fd = "3 + index_of ?q table"
  let ?stat = "\<lparr>st_kind = S_IFREG, st_size = length bytes\<rparr>"
  from index_of_map_of [OF node_at_regular_file [OF assms(2)]]
  have i: "index_of ?q table < length table"
    and n: "snd (table ! index_of ?q table) = RegularFile bytes"
    by simp_all
  have 2: "fs_exists ?fs fullPath"
    using assms(2) by (simp add: filesystem_of_def)
  have 3: "fs_open ?fs fullPath = Inr ?fd"
    using assms(2) by (simp add: filesystem_of_def)
  have 4: "fs_fstat ?fs ?fd = Inr ?stat"
    using i n by (simp add: filesystem_of_def stats_of_def)
  have 5: "isFile ?stat"
    by (simp add: isFile_def)
  have 6: "fs_createReadStream ?fs fullPath = (if bytes = [] then [End] else [Data bytes, End])"
    using assms(2) by (simp add: filesystem_of_def)
  show ?thesis
    unfolding handler_regular_file [OF assms(1) 2 3 4 5] 6
    by (simp add: response_status_def response_header_def response_body_def
        openFile_head_content_length)
qed

text \<open>
  The children that \<^verbatim>\<open>fs.statSync\<close> reports as neither directory nor regular file. In
  the listing of a directory all of whose children can be examined, the two lists of the
  page are the children reported as directories and as regular files, so a socket, a
  device or a FIFO is in neither; the status is 200, and the calls on the response are
  those for the same directory without such children (\<open>fs'\<close>), in every revision.
\<close>

lemma other_inodes_omitted:
  assumes "request_paths cfg url_pathname = Inr (pathname, fullPath)"
    and "fs_exists fs fullPath"
    and "fs_open fs fullPath = Inr fd"
    and "fs_fstat fs fd = Inr fileStat"
    and "fs_stat fs fullPath = Inr fileStat"
    and "isDirectory fileStat"
    and "fs_readdir fs fullPath = Inr files"
    and "None \<notin> set (map (child_kind fs fullPath) files)"
    and "fs' = fs\<lparr>fs_readdir :=
                    (fs_readdir fs)(fullPath := Inr (filter (is_listed fs fullPath) files))\<rparr>"
  shows "response_status (handler cfg fs url_pathname) = Some 200
       \<and> response_body (handler cfg fs url_pathname) =
           render_listing pathname
             (filter (\<lambda>file. child_kind fs fullPath file = Some S_IFDIR) files)
             (filter (\<lambda>file. child_kind fs fullPath file = Some S_IFREG) files)
       \<and> res_calls (handler cfg fs' url_pathname) = res_calls (handler cfg fs url_pathname)
       \<and> response_status (handler_0_2 cfg fs url_pathname) = Some 200
       \<and> response_body (handler_0_2 cfg fs url_pathname) =
           render_listing pathname
             (filter (\<lambda>file. child_kind fs fullPath file = Some S_IFDIR) files)
             (filter (\<lambda>file. child_kind fs fullPath file = Some S_IFREG) files)
       \<and> res_calls (handler_0_2 cfg fs' url_pathname)
           = res_calls (handler_0_2 cfg fs url_pathname)"
proof -
  let ?kept = "filter (is_listed fs fullPath) files"
  have kind: "child_kind fs' fullPath = child_kind fs fullPath"
    unfolding assms(9) by (rule ext) (simp add: child_kind_def)
  have 2: "fs_exists fs' fullPath"
    using assms(2) unfolding assms(9) by simp
  have 3: "fs_open fs' fullPath = Inr fd"
    using assms(3) unfolding assms(9) by simp
  have 4: "fs_fstat fs' fd = Inr fileStat"
    using assms(4) unfolding assms(9) by simp
  have 5: "fs_stat fs' fullPath = Inr fileStat"
    using assms(5) unfolding assms(9) by simp
  have 7: "fs_readdir fs' fullPath = Inr ?kept"
    unfolding assms(9) by simp
  have 8: "None \<notin> set (map (child_kind fs' fullPath) ?kept)"
    using assms(8) unfolding kind by auto
  have d: "filter (\<lambda>file. child_kind fs fullPath file = Some S_IFDIR) ?kept
      = filter (\<lambda>file. child_kind fs fullPath file = Some S_IFDIR) files"
    by (auto simp: is_listed_def intro: filter_cong)
  have r: "filter (\<lambda>file. child_kind fs fullPath file = Some S_IFREG) ?kept
      = filter (\<lambda>file. child_kind fs fullPath file = Some S_IFREG) files"
    by (auto simp: is_listed_def intro: filter_cong)
  show ?thesis
    unfolding handler_directory [OF assms(1-4) assms(6-8)]
      handler_directory [OF assms(1) 2 3 4 assms(6) 7 8]
      handler_0_2_directory [OF assms(1,2) assms(5-8)]
      handler_0_2_directory [OF assms(1) 2 5 assms(6) 7 8] kind d r
    by (simp add: response_status_def response_body_def res_calls_def writeHeads_append
        writeHeads_stats body_written_append body_written_stats res_calls_stats)
qed

text \<open>
  The root of \<open>devices_site\<close> holds a FIFO, a socket and a character device next to \<^verbatim>\<open>a.txt\<close> and
  \<^verbatim>\<open>sub\<close>; the response is that of the root with \<^verbatim>\<open>a.txt\<close> and \<^verbatim>\<open>sub\<close> alone.
\<close>

lemma other_inodes_omitted_example:
  "request_paths www ''/'' = Inr ([], ''/srv/www'')
   \<and> fs_exists (filesystem_of devices_site) ''/srv/www''
   \<and> fs_open (filesystem_of devices_site) ''/srv/www'' = Inr 3
   \<and> fs_fstat (filesystem_of devices_site) 3 = Inr \<lparr>st_kind = S_IFDIR, st_size = 4096\<rparr>
   \<and> fs_stat (filesystem_of devices_site) ''/srv/www''
       = Inr \<lparr>st_kind = S_IFDIR, st_size = 4096\<rparr>
   \<and> fs_readdir (filesystem_of devices_site) ''/srv/www''
       = Inr [''a.txt'', ''fifo'', ''sock'', ''sub'', ''tty'']
   \<and> map (child_kind (filesystem_of devices_site) ''/srv/www'')
         [''a.txt'', ''fifo'', ''sock'', ''sub'', ''tty'']
       = [Some S_IFREG, Some S_IFIFO, Some S_IFSOCK, Some S_IFDIR, Some S_IFCHR]
   \<and> response_status (handler www (filesystem_of devices_site) ''/'') = Some 200
   \<and> response_body (handler www (filesystem_of devices_site) ''/'')
       = render_listing [] [''sub''] [''a.txt'']
   \<and> response_status (handler_0_2 www (filesystem_of devices_site) ''/'') = Some 200
   \<and> response_body (handler_0_2 www (filesystem_of devices_site) ''/'')
       = render_listing [] [''sub''] [''a.txt'']
   \<and> res_calls (handler www (filesystem_of devices_site) ''/'')
       = res_calls (handler www (filesystem_of small_site) ''/'')"
proof -
  let ?fs = "filesystem_of devices_site"
  let ?files = "[''a.txt'', ''fifo'', ''sock'', ''sub'', ''tty'']"
  have 1: "request_paths www ''/'' = Inr ([], ''/srv/www'')"
    by code_simp
  have 2: "fs_exists ?fs ''/srv/www''"
    by code_simp
  have 3: "fs_open ?fs ''/srv/www'' = Inr 3"
    by code_simp
  have 4: "fs_fstat ?fs 3 = Inr \<lparr>st_kind = S_IFDIR, st_size = 4096\<rparr>"
    by code_simp
  have 5: "fs_stat ?fs ''/srv/www'' = Inr \<lparr>st_kind = S_IFDIR, st_size = 4096\<rparr>"
    by code_simp
  have 6: "isDirectory \<lparr>st_kind = S_IFDIR, st_size = 4096\<rparr>"
    by (simp add: isDirectory_def)
  have 7: "fs_readdir ?fs ''/srv/www'' = Inr ?files"
    by code_simp
  have kinds: "map (child_kind ?fs ''/srv/www'') ?files
      = [Some S_IFREG, Some S_IFIFO, Some S_IFSOCK, Some S_IFDIR, Some S_IFCHR]"
    by code_simp
  have 8: "None \<notin> set (map (child_kind ?fs ''/srv/www'') ?files)"
    unfolding kinds by simp
  have d: "filter (\<lambda>file. child_kind ?fs ''/srv/www'' file = Some S_IFDIR) ?files = [''sub'']"
    by code_simp
  have r: "filter (\<lambda>file. child_kind ?fs ''/srv/www'' file = Some S_IFREG) ?files = [''a.txt'']"
    by code_simp
  have same: "res_calls (handler www ?fs ''/'')
      = res_calls (handler www (filesystem_of small_site) ''/'')"
    by code_simp
  from other_inodes_omitted [OF 1 2 3 4 5 6 7 8 refl] 1 2 3 4 5 7 kinds same
  show ?thesis unfolding d r by simp
qed

section \<open>The claims\<close>

text \<open>
  C1. For every request path that resolves to an existing regular file (the path is
  decoded, it exists, \<^verbatim>\<open>fs.open\<close> and \<^verbatim>\<open>fs.fstat\<close> succeed and report a regular file, and
  the read stream delivers the file as chunks and ends), the response has status 200, its
  \<^verbatim>\<open>Content-Length\<close> header is the size that \<^verbatim>\<open>fstat\<close> reported, and the body is the
  file's bytes: the chunks in order.
\<close>

theorem file_response:
  assumes "request_paths cfg url_pathname = Inr (pathname, fullPath)"
    and "fs_exists fs fullPath"
    and "fs_open fs fullPath = Inr fd"
    and "fs_fstat fs fd = Inr fileStat"
    and "isFile fileStat"
    and "fs_createReadStream fs fullPath = map Data chunks @ [End]"
  shows "response_status (handler cfg fs url_pathname) = Some 200
       \<and> response_header (handler cfg fs url_pathname) ''Content-Length''
           = Some (HNum (st_size fileStat))
       \<and> response_body (handler cfg fs url_pathname) = concat chunks"
proof -
  have run: "handler cfg fs url_pathname =
      ([FsExists fullPath, FsOpen fullPath, FsFstat fd, FsCreateReadStream fullPath,
        ResWriteHead 200 (openFile_head cfg fileStat fullPath)]
         @ map ResWrite chunks @ [ResEnd []], None)"
    using handler_regular_file [OF assms(1-5)] assms(6)
    by (simp add: stream_listeners_data)
  show ?thesis
    unfolding run
    by (simp add: response_status_def response_header_def response_body_def
        writeHeads_append body_written_append writeHeads_writes body_written_writes
        openFile_head_content_length)
qed

text \<open>
  The scenario of the specification: \<^verbatim>\<open>/a.txt\<close> holds \<^verbatim>\<open>hi\<close>; the answer is 200 with
  \<^verbatim>\<open>Content-Length: 2\<close> and body \<^verbatim>\<open>hi\<close>.
\<close>

theorem file_response_witness:
  "request_paths www ''/a.txt'' = Inr (''a.txt'', ''/srv/www/a.txt'')
   \<and> fs_exists (filesystem_of small_site) ''/srv/www/a.txt''
   \<and> fs_open (filesystem_of small_site) ''/srv/www/a.txt'' = Inr 4
   \<and> fs_fstat (filesystem_of small_site) 4 = Inr \<lparr>st_kind = S_IFREG, st_size = 2\<rparr>
   \<and> isFile \<lparr>st_kind = S_IFREG, st_size = 2\<rparr>
   \<and> fs_createReadStream (filesystem_of small_site) ''/srv/www/a.txt'' = map Data [''hi''] @ [End]
   \<and> response_status (handler www (filesystem_of small_site) ''/a.txt'') = Some 200
   \<and> response_header (handler www (filesystem_of small_site) ''/a.txt'') ''Content-Length''
       = Some (HNum 2)
   \<and> response_body (handler www (filesystem_of small_site) ''/a.txt'') = ''hi''"
proof -
  have 1: "request_paths www ''/a.txt'' = Inr (''a.txt'', ''/srv/www/a.txt'')"
    by code_simp
  have 2: "fs_exists (filesystem_of small_site) ''/srv/www/a.txt''"
    by code_simp
  have 3: "fs_open (filesystem_of small_site) ''/srv/www/a.txt'' = Inr 4"
    by code_simp
  have 4: "fs_fstat (filesystem_of small_site) 4 = Inr \<lparr>st_kind = S_IFREG, st_size = 2\<rparr>"
    by code_simp
  have 5: "isFile \<lparr>st_kind = S_IFREG, st_size = 2\<rparr>"
    by (simp add: isFile_def)
  have 6: "fs_createReadStream (filesystem_of small_site) ''/srv/www/a.txt''
      = map Data [''hi''] @ [End]"
    by code_simp
  from file_response [OF 1 2 3 4 5 6] 1 2 3 4 5 6 show ?thesis
    by simp
qed

text \<open>
  C2, as claimed: for every request path that resolves to an existing directory the listing
  shows the directories before the files, each group in byte-wise ascending order, a
  directory as \<^verbatim>\<open>[D]\<close> with href \<^verbatim>\<open>./name/\<close> and a file as \<^verbatim>\<open>[F]\<close> with href
  \<^verbatim>\<open>./name\<close>, after one entry for the parent exactly when the decoded path is neither
  empty nor \<^verbatim>\<open>/\<close>.

  C2, amended: the order of each group is that of \<^verbatim>\<open>Array.prototype.sort\<close>, ascending by
  UTF-16 code units, which is the byte-wise order when the names are ASCII; the rest as
  claimed, for a directory all of whose children \<^verbatim>\<open>fs.statSync\<close> can examine, when
  neither the decoded path nor a name of a child holds a dollar sign or a number sign
  (the entries are made with \<^verbatim>\<open>String.prototype.replace\<close>, one placeholder after the
  other, which rewrites such names). \<open>dirs\<close> and \<open>regs\<close> are the names of the children
  that are directories and regular files, sorted.
\<close>

theorem directory_listing:
  assumes "request_paths cfg url_pathname = Inr (pathname, fullPath)"
    and "fs_exists fs fullPath"
    and "fs_open fs fullPath = Inr fd"
    and "fs_fstat fs fd = Inr fileStat"
    and "isDirectory fileStat"
    and "fs_readdir fs fullPath = Inr files"
    and "None \<notin> set (map (child_kind fs fullPath) files)"
    and "CHR ''$'' \<notin> set (concat (pathname # files))"
    and "CHR ''#'' \<notin> set (concat (pathname # files))"
    and "dirs = sort_key utf16_units
                  (filter (\<lambda>file. child_kind fs fullPath file = Some S_IFDIR) files)"
    and "regs = sort_key utf16_units
                  (filter (\<lambda>file. child_kind fs fullPath file = Some S_IFREG) files)"
  shows "response_status (handler cfg fs url_pathname) = Some 200
       \<and> response_body (handler cfg fs url_pathname) =
           spec_page (''/'' @ pathname)
             ((if pathname \<noteq> [] \<and> pathname \<noteq> ''/'' then spec_entry ''[D]'' ''./..'' ''..'' else [])
              @ concat (map (\<lambda>name. spec_entry ''[D]'' (''./'' @ name @ ''/'') name) dirs)
              @ concat (map (\<lambda>name. spec_entry ''[F]'' (''./'' @ name) name) regs))
       \<and> sorted (map utf16_units dirs) \<and> sorted (map utf16_units regs)
       \<and> ((\<forall>c \<in> set (concat files). of_char c < (128::int)) \<longrightarrow> sorted dirs \<and> sorted regs)"
proof -
  let ?ds = "filter (\<lambda>file. child_kind fs fullPath file = Some S_IFDIR) files"
  let ?rs = "filter (\<lambda>file. child_kind fs fullPath file = Some S_IFREG) files"
  have names: "\<forall>name \<in> set ?ds \<union> set ?rs. CHR ''$'' \<notin> set name \<and> CHR ''#'' \<notin> set name"
    using assms(8,9) by auto
  have path: "CHR ''$'' \<notin> set pathname" "CHR ''#'' \<notin> set pathname"
    using assms(8,9) by auto
  have body: "response_body (handler cfg fs url_pathname) = render_listing pathname ?ds ?rs"
    unfolding handler_directory [OF assms(1-7)]
    by (simp add: response_body_def body_written_append body_written_stats)
  have status: "response_status (handler cfg fs url_pathname) = Some 200"
    unfolding handler_directory [OF assms(1-7)]
    by (simp add: response_status_def writeHeads_append writeHeads_stats)
  have units: "sorted (map utf16_units dirs)" "sorted (map utf16_units regs)"
    unfolding assms(10,11) by (simp_all add: sorted_sort_key)
  have octets: "sorted dirs \<and> sorted regs"
    if ascii: "\<forall>c \<in> set (concat files). of_char c < (128::int)"
  proof -
    have "\<forall>c \<in> set (concat dirs). of_char c < (128::int)"
      using ascii unfolding assms(10) by auto
    moreover have "\<forall>c \<in> set (concat regs). of_char c < (128::int)"
      using ascii unfolding assms(11) by auto
    ultimately show ?thesis
      using units by (simp add: sorted_ascii_names)
  qed
  have spec_page: "response_body (handler cfg fs url_pathname) =
           spec_page (''/'' @ pathname)
             ((if pathname \<noteq> [] \<and> pathname \<noteq> ''/'' then spec_entry ''[D]'' ''./..'' ''..'' else [])
              @ concat (map (\<lambda>name. spec_entry ''[D]'' (''./'' @ name @ ''/'') name) dirs)
              @ concat (map (\<lambda>name. spec_entry ''[F]'' (''./'' @ name) name) regs))"
    unfolding body assms(10,11) render_listing_plain [OF names path] by simp
  from status spec_page units octets show ?thesis
    by blast
qed

text \<open>
  \<^verbatim>\<open>/docs/\<close> holds the directories \<^verbatim>\<open>beta\<close> and \<^verbatim>\<open>Alpha\<close> and the files
  \<^verbatim>\<open>zeta.txt\<close>, \<^verbatim>\<open>alpha\<close> and \<^verbatim>\<open>b.md\<close>.
\<close>

theorem directory_listing_witness:
  "request_paths www ''/docs/'' = Inr (''docs/'', ''/srv/www/docs/'')
   \<and> fs_exists (filesystem_of docs_site) ''/srv/www/docs/''
   \<and> fs_open (filesystem_of docs_site) ''/srv/www/docs/'' = Inr 4
   \<and> fs_fstat (filesystem_of docs_site) 4 = Inr \<lparr>st_kind = S_IFDIR, st_size = 4096\<rparr>
   \<and> fs_readdir (filesystem_of docs_site) ''/srv/www/docs/''
       = Inr [''zeta.txt'', ''beta'', ''alpha'', ''b.md'', ''Alpha'']
   \<and> map (child_kind (filesystem_of docs_site) ''/srv/www/docs/'')
         [''zeta.txt'', ''beta'', ''alpha'', ''b.md'', ''Alpha'']
       = [Some S_IFREG, Some S_IFDIR, Some S_IFREG, Some S_IFREG, Some S_IFDIR]
   \<and> response_status (handler www (filesystem_of docs_site) ''/docs/'') = Some 200
   \<and> response_body (handler www (filesystem_of docs_site) ''/docs/'') =
       spec_page ''/docs/''
         (spec_entry ''[D]'' ''./..'' ''..''
          @ spec_entry ''[D]'' ''./Alpha/'' ''Alpha''
          @ spec_entry ''[D]'' ''./beta/'' ''beta''
          @ spec_entry ''[F]'' ''./alpha'' ''alpha''
          @ spec_entry ''[F]'' ''./b.md'' ''b.md''
          @ spec_entry ''[F]'' ''./zeta.txt'' ''zeta.txt'')
   \<and> sorted [''Alpha'', ''beta''] \<and> sorted [''alpha'', ''b.md'', ''zeta.txt'']"
proof -
  let ?fs = "filesystem_of docs_site"
  let ?files = "[''zeta.txt'', ''beta'', ''alpha'', ''b.md'', ''Alpha'']"
  have 1: "request_paths www ''/docs/'' = Inr (''docs/'', ''/srv/www/docs/'')"
    by code_simp
  have 2: "fs_exists ?fs ''/srv/www/docs/''"
    by code_simp
  have 3: "fs_open ?fs ''/srv/www/docs/'' = Inr 4"
    by code_simp
  have 4: "fs_fstat ?fs 4 = Inr \<lparr>st_kind = S_IFDIR, st_size = 4096\<rparr>"
    by code_simp
  have 5: "isDirectory \<lparr>st_kind = S_IFDIR, st_size = 4096\<rparr>"
    by (simp add: isDirectory_def)
  have 6: "fs_readdir ?fs ''/srv/www/docs/'' = Inr ?files"
    by code_simp
  have kinds: "map (child_kind ?fs ''/srv/www/docs/'') ?files
      = [Some S_IFREG, Some S_IFDIR, Some S_IFREG, Some S_IFREG, Some S_IFDIR]"
    by code_simp
  have 7: "None \<notin> set (map (child_kind ?fs ''/srv/www/docs/'') ?files)"
    unfolding kinds by simp
  have 8: "CHR ''$'' \<notin> set (concat (''docs/'' # ?files))"
    by simp
  have 9: "CHR ''#'' \<notin> set (concat (''docs/'' # ?files))"
    by simp
  have 10: "[''Alpha'', ''beta'']
      = sort_key utf16_units
          (filter (\<lambda>file. child_kind ?fs ''/srv/www/docs/'' file = Some S_IFDIR) ?files)"
    by code_simp
  have 11: "[''alpha'', ''b.md'', ''zeta.txt'']
      = sort_key utf16_units
          (filter (\<lambda>file. child_kind ?fs ''/srv/www/docs/'' file = Some S_IFREG) ?files)"
    by code_simp
  have ascii: "\<forall>c \<in> set (concat ?files). of_char c < (128::int)"
    by code_simp
  from directory_listing [OF 1 2 3 4 5 6 7 8 9 10 11] ascii 1 2 3 4 6 kinds
  show ?thesis by simp
qed

text \<open>
  Two inputs at which the claim fails. The root of \<open>wide_site\<close> holds two files whose
  names are the fullwidth tilde and the grinning face: byte-wise the tilde comes first
  (\<^verbatim>\<open>EF\<close> before \<^verbatim>\<open>F0\<close>), the listing shows the face first (\<^verbatim>\<open>D83D\<close> before \<^verbatim>\<open>FF5E\<close>).
  The root of \<open>dollar_site\<close> holds a file named \<^verbatim>\<open>cash$$.txt\<close>: it is listed with href
  \<^verbatim>\<open>./cash$.txt\<close> and title \<^verbatim>\<open>cash$.txt\<close>, since \<^verbatim>\<open>replace\<close> reads \<^verbatim>\<open>$$\<close> in its
  replacement as one dollar sign.
\<close>

theorem listing_order_counterexample:
  "fs_readdir (filesystem_of wide_site) ''/srv/www'' = Inr [fullwidth_tilde, grinning_face]
   \<and> map (child_kind (filesystem_of wide_site) ''/srv/www'') [fullwidth_tilde, grinning_face]
       = [Some S_IFREG, Some S_IFREG]
   \<and> fullwidth_tilde < grinning_face
   \<and> response_body (handler www (filesystem_of wide_site) ''/'')
       = spec_page ''/''
           (spec_entry ''[F]'' (''./'' @ grinning_face) grinning_face
            @ spec_entry ''[F]'' (''./'' @ fullwidth_tilde) fullwidth_tilde)
   \<and> fs_readdir (filesystem_of dollar_site) ''/srv/www'' = Inr [''cash$$.txt'']
   \<and> child_kind (filesystem_of dollar_site) ''/srv/www'' ''cash$$.txt'' = Some S_IFREG
   \<and> response_body (handler www (filesystem_of dollar_site) ''/'')
       = spec_page ''/'' (spec_entry ''[F]'' ''./cash$.txt'' ''cash$.txt'')
   \<and> response_body (handler www (filesystem_of dollar_site) ''/'')
       \<noteq> spec_page ''/'' (spec_entry ''[F]'' ''./cash$$.txt'' ''cash$$.txt'')"
  by code_simp

text \<open>
  C3, as claimed: every request path that does not exist gets status 404 and a plain-text
  body containing \<^verbatim>\<open>Page not found.\<close>, and nothing is opened, examined, listed or
  streamed afterwards. Revisions 0.1 and 0.2.1 answer \<^verbatim>\<open>Path not found.\<close> instead.

  C3, amended: the only call on the file system is the existence check; the response is
  404 with content type \<^verbatim>\<open>text/plain; charset=utf-8\<close>; its body is
  \<^verbatim>\<open>Error 404. Page not found.\<close> in the streaming revision and
  \<^verbatim>\<open>Error 404. Path not found.\<close> in revisions 0.1 and 0.2.1.
\<close>

theorem not_found_response:
  assumes "request_paths cfg url_pathname = Inr (pathname, fullPath)"
    and "\<not> fs_exists fs fullPath"
  shows "handler cfg fs url_pathname =
           ([FsExists fullPath,
             ResWriteHead 404 [(''Content-Type'', HStr ''text/plain; charset=utf-8'')],
             ResEnd ''Error 404. Page not found.''], None)
       \<and> handler_0_2 cfg fs url_pathname =
           ([FsExists fullPath,
             ResWriteHead 404 [(''Content-Type'', HStr ''text/plain; charset=utf-8'')],
             ResEnd ''Error 404. Path not found.''], None)
       \<and> response_status (handler cfg fs url_pathname) = Some 404
       \<and> response_status (handler_0_2 cfg fs url_pathname) = Some 404
       \<and> sublist ''Page not found.'' (response_body (handler cfg fs url_pathname))
       \<and> filter is_fs_call (fst (handler cfg fs url_pathname)) = [FsExists fullPath]
       \<and> filter is_fs_call (fst (handler_0_2 cfg fs url_pathname)) = [FsExists fullPath]"
proof -
  have run: "handler cfg fs url_pathname =
           ([FsExists fullPath,
             ResWriteHead 404 [(''Content-Type'', HStr ''text/plain; charset=utf-8'')],
             ResEnd ''Error 404. Page not found.''], None)"
    using assms by (simp add: handler_def tellAboutError_def string_of_nat_404)
  have run_0_2: "handler_0_2 cfg fs url_pathname =
           ([FsExists fullPath,
             ResWriteHead 404 [(''Content-Type'', HStr ''text/plain; charset=utf-8'')],
             ResEnd ''Error 404. Path not found.''], None)"
    using assms by (simp add: handler_0_2_def tellAboutError_def string_of_nat_404)
  have "''Error 404. Page not found.'' = ''Error 404. '' @ ''Page not found.'' @ []"
    by simp
  then have "sublist ''Page not found.'' ''Error 404. Page not found.''"
    unfolding sublist_def by blast
  then show ?thesis
    unfolding run run_0_2
    by (simp add: response_status_def response_body_def)
qed

theorem not_found_response_witness:
  "request_paths www ''/missing'' = Inr (''missing'', ''/srv/www/missing'')
   \<and> \<not> fs_exists (filesystem_of small_site) ''/srv/www/missing''
   \<and> response_status (handler www (filesystem_of small_site) ''/missing'') = Some 404
   \<and> response_body (handler www (filesystem_of small_site) ''/missing'')
       = ''Error 404. Page not found.''
   \<and> response_body (handler_0_2 www (filesystem_of small_site) ''/missing'')
       = ''Error 404. Path not found.''
   \<and> filter is_fs_call (fst (handler www (filesystem_of small_site) ''/missing''))
       = [FsExists ''/srv/www/missing'']"
proof -
  have 1: "request_paths www ''/missing'' = Inr (''missing'', ''/srv/www/missing'')"
    by code_simp
  have 2: "\<not> fs_exists (filesystem_of small_site) ''/srv/www/missing''"
    by code_simp
  from not_found_response [OF 1 2] 1 2 show ?thesis
    by (simp add: response_body_def response_status_def)
qed

text \<open>
  In \<^verbatim>\<open>src/http-file-server.js\<close> the body for a missing path is
  \<^verbatim>\<open>Error 404. Path not found.\<close>, which does not contain \<^verbatim>\<open>Page not found.\<close>
\<close>

theorem not_found_body_counterexample:
  "\<not> fs_exists (filesystem_of small_site) ''/srv/www/nothing.html''
   \<and> response_status (handler_0_2 www (filesystem_of small_site) ''/nothing.html'') = Some 404
   \<and> response_body (handler_0_2 www (filesystem_of small_site) ''/nothing.html'')
       = ''Error 404. Path not found.''
   \<and> \<not> sublist ''Page not found.''
         (response_body (handler_0_2 www (filesystem_of small_site) ''/nothing.html''))"
  by code_simp

text \<open>
  C4 (a defect of the code). The table \<^verbatim>\<open>contentTypes\<close> is commented
  \<^verbatim>\<open>// case insensitive\<close>, but the loop compares the key with \<^verbatim>\<open>path.extname(fullPath)\<close>
  by \<^verbatim>\<open>==\<close>: \<^verbatim>\<open>/image.PNG\<close> is served as \<^verbatim>\<open>application/octet-stream\<close> and
  \<^verbatim>\<open>/image.png\<close> as \<^verbatim>\<open>image/png\<close>, in every revision.
\<close>

theorem upper_case_extension_falls_back:
  "response_status (handler www (filesystem_of media_site) ''/image.PNG'') = Some 200
   \<and> response_header (handler www (filesystem_of media_site) ''/image.PNG'') ''Content-Type''
       = Some (HStr ''application/octet-stream'')
   \<and> response_header (handler www (filesystem_of media_site) ''/image.png'') ''Content-Type''
       = Some (HStr ''image/png'')
   \<and> response_header (handler_0_2 www (filesystem_of media_site) ''/image.PNG'') ''Content-Type''
       = Some (HStr ''application/octet-stream'')
   \<and> response_header (handler_0_2 www (filesystem_of media_site) ''/image.png'') ''Content-Type''
       = Some (HStr ''image/png'')"
  by code_simp

text \<open>
  C5. For every request path that resolves to a regular file, the response carries a
  content type (the lookup has no error case), and when the extension of the path is no
  key of the table (as for a path without extension, whose extension is the empty text)
  the content type is \<^verbatim>\<open>application/octet-stream\<close>. This holds for the extension
  that \<^verbatim>\<open>path.extname\<close> computes and for the extension as the specification words it.
\<close>

theorem unknown_extension_content_type:
  assumes "request_paths cfg url_pathname = Inr (pathname, fullPath)"
    and "fs_exists fs fullPath"
    and "fs_open fs fullPath = Inr fd"
    and "fs_fstat fs fd = Inr fileStat"
    and "isFile fileStat"
  shows "response_status (handler cfg fs url_pathname) = Some 200
       \<and> (\<exists>contentType.
             response_header (handler cfg fs url_pathname) ''Content-Type''
               = Some (HStr contentType))
       \<and> (extname fullPath \<notin> fst ` set contentTypes \<longrightarrow>
             response_header (handler cfg fs url_pathname) ''Content-Type''
               = Some (HStr ''application/octet-stream''))
       \<and> (spec_extension fullPath \<notin> fst ` set contentTypes \<longrightarrow>
             response_header (handler cfg fs url_pathname) ''Content-Type''
               = Some (HStr ''application/octet-stream''))
       \<and> [] \<notin> fst ` set contentTypes"
proof -
  have empty: "[] \<notin> fst ` set contentTypes"
    by (simp add: contentTypes_def)
  have "extname fullPath \<notin> fst ` set contentTypes"
    if "spec_extension fullPath \<notin> fst ` set contentTypes"
    using that empty extname_cases [of fullPath] by metis
  with empty show ?thesis
    unfolding handler_regular_file [OF assms]
    using openFile_head_has_content_type [of cfg fileStat fullPath]
    by (auto simp: response_status_def response_header_def openFile_head_fallback)
qed

text \<open>\<^verbatim>\<open>/notes.xyz\<close> has an unknown extension and \<^verbatim>\<open>/README\<close> has none.\<close>

theorem unknown_extension_content_type_witness:
  "request_paths www ''/notes.xyz'' = Inr (''notes.xyz'', ''/srv/www/notes.xyz'')
   \<and> fs_exists (filesystem_of media_site) ''/srv/www/notes.xyz''
   \<and> fs_open (filesystem_of media_site) ''/srv/www/notes.xyz'' = Inr 7
   \<and> fs_fstat (filesystem_of media_site) 7 = Inr \<lparr>st_kind = S_IFREG, st_size = 3\<rparr>
   \<and> isFile \<lparr>st_kind = S_IFREG, st_size = 3\<rparr>
   \<and> extname ''/srv/www/notes.xyz'' = ''.xyz''
   \<and> spec_extension ''/srv/www/notes.xyz'' = ''.xyz''
   \<and> ''.xyz'' \<notin> fst ` set contentTypes
   \<and> response_header (handler www (filesystem_of media_site) ''/notes.xyz'') ''Content-Type''
       = Some (HStr ''application/octet-stream'')
   \<and> request_paths www ''/README'' = Inr (''README'', ''/srv/www/README'')
   \<and> fs_exists (filesystem_of media_site) ''/srv/www/README''
   \<and> fs_open (filesystem_of media_site) ''/srv/www/README'' = Inr 4
   \<and> fs_fstat (filesystem_of media_site) 4 = Inr \<lparr>st_kind = S_IFREG, st_size = 7\<rparr>
   \<and> isFile \<lparr>st_kind = S_IFREG, st_size = 7\<rparr>
   \<and> extname ''/srv/www/README'' = []
   \<and> response_header (handler www (filesystem_of media_site) ''/README'') ''Content-Type''
       = Some (HStr ''application/octet-stream'')"
proof -
  have a1: "request_paths www ''/notes.xyz'' = Inr (''notes.xyz'', ''/srv/www/notes.xyz'')"
    by code_simp
  have a2: "fs_exists (filesystem_of media_site) ''/srv/www/notes.xyz''"
    by code_simp
  have a3: "fs_open (filesystem_of media_site) ''/srv/www/notes.xyz'' = Inr 7"
    by code_simp
  have a4: "fs_fstat (filesystem_of media_site) 7 = Inr \<lparr>st_kind = S_IFREG, st_size = 3\<rparr>"
    by code_simp
  have a5: "isFile \<lparr>st_kind = S_IFREG, st_size = 3\<rparr>"
    by (simp add: isFile_def)
  have a6: "extname ''/srv/www/notes.xyz'' = ''.xyz''"
    by code_simp
  have a7: "''.xyz'' \<notin> fst ` set contentTypes"
    by (simp add: contentTypes_def)
  have a8: "spec_extension ''/srv/www/notes.xyz'' = ''.xyz''"
    by code_simp
  have b1: "request_paths www ''/README'' = Inr (''README'', ''/srv/www/README'')"
    by code_simp
  have b2: "fs_exists (filesystem_of media_site) ''/srv/www/README''"
    by code_simp
  have b3: "fs_open (filesystem_of media_site) ''/srv/www/README'' = Inr 4"
    by code_simp
  have b4: "fs_fstat (filesystem_of media_site) 4 = Inr \<lparr>st_kind = S_IFREG, st_size = 7\<rparr>"
    by code_simp
  have b5: "isFile \<lparr>st_kind = S_IFREG, st_size = 7\<rparr>"
    by (simp add: isFile_def)
  have b6: "extname ''/srv/www/README'' = []"
    by code_simp
  from unknown_extension_content_type [OF a1 a2 a3 a4 a5]
    unknown_extension_content_type [OF b1 b2 b3 b4 b5]
    a1 a2 a3 a4 a5 a6 a7 a8 b1 b2 b3 b4 b5 b6
  show ?thesis by simp
qed

text \<open>
  C6, as claimed: the decoded path is the raw path percent-decoded first, then with every
  \<^verbatim>\<open>+\<close> replaced by a space, then without the slashes in front. The script replaces
  first and decodes second (\<^verbatim>\<open>decodeURIComponent(pathname.split('+').join(' '))\<close>), so
  an escaped plus sign \<^verbatim>\<open>%2B\<close> stays a plus sign.

  C6, amended: for every raw URL path, \<^verbatim>\<open>pathname\<close> is the raw path with every literal
  \<^verbatim>\<open>+\<close> replaced by a space, then percent-decoded, then without all its leading
  slashes, and \<^verbatim>\<open>fullPath\<close> is \<^verbatim>\<open>path.join\<close> of the root and \<^verbatim>\<open>pathname\<close>; when the
  decoding throws, there are no paths.
\<close>

theorem request_paths_order:
  "request_paths cfg rawPath =
     (case decodeURIComponent (map (\<lambda>c. if c = CHR ''+'' then CHR '' '' else c) rawPath) of
        Inl exn \<Rightarrow> Inl exn
      | Inr decoded \<Rightarrow>
          Inr (dropWhile (\<lambda>c. c = CHR ''/'') decoded,
               path_join (filesPath cfg) (dropWhile (\<lambda>c. c = CHR ''/'') decoded)))"
  by (simp add: request_paths_def join_split_chr strip_leading_slashes_dropWhile Let_def
      split: sum.splits)

text \<open>
  \<^verbatim>\<open>/a%2Bb\<close>: the script gives \<^verbatim>\<open>a+b\<close>, the order of the claim gives \<^verbatim>\<open>a b\<close>.
\<close>

theorem decode_order_counterexample:
  "request_paths www ''/a%2Bb'' = Inr (''a+b'', ''/srv/www/a+b'')
   \<and> spec_decodedPath ''/a%2Bb'' = Inr ''a b''
   \<and> map_sum id fst (request_paths www ''/a%2Bb'') \<noteq> spec_decodedPath ''/a%2Bb''"
  by code_simp

text \<open>
  C7 (a defect of the code). \<^verbatim>\<open>fs.statSync\<close> is called in the loop over the children
  with no \<^verbatim>\<open>try\<close> around it. When it throws for one child, the exception leaves the
  \<^verbatim>\<open>readdir\<close> callback: the remaining children are not looked at and \<^verbatim>\<open>res\<close> is never
  written to, so the child is neither left out of a listing nor reported by an error
  response. Here the first child of the root cannot be examined.
\<close>

theorem stat_failure_aborts_listing:
  "fs_readdir unsearchable_fs ''/srv/www'' = Inr [''a.txt'', ''sub'']
   \<and> fs_statSync unsearchable_fs ''/srv/www/a.txt'' = Inl EACCES
   \<and> handler www unsearchable_fs ''/'' =
       ([FsExists ''/srv/www'', FsOpen ''/srv/www'', FsFstat 3, FsReaddir ''/srv/www'',
         FsStatSync ''/srv/www/a.txt''],
        Some (FsError EACCES))
   \<and> res_calls (handler www unsearchable_fs ''/'') = []
   \<and> response_status (handler www unsearchable_fs ''/'') = None
   \<and> handler_0_2 www unsearchable_fs ''/'' =
       ([FsExists ''/srv/www'', FsStat ''/srv/www'', FsReaddir ''/srv/www'',
         FsStatSync ''/srv/www/a.txt''],
        Some (FsError EACCES))"
  by code_simp

text \<open>
  C8 (a defect of the code). The \<^verbatim>\<open>'error'\<close> listener of the read stream calls
  \<^verbatim>\<open>tellAboutError(500, 'Cannot read file.')\<close> although \<^verbatim>\<open>res.writeHead(200, head)\<close>
  has been called before the first chunk: a read error after one byte gives a second
  \<^verbatim>\<open>writeHead\<close>, with status 500, after the head with status 200 and a chunk of the body.
\<close>

theorem read_error_writes_second_head:
  "fs_createReadStream failing_disk_fs ''/srv/www/a.txt'' = [Data ''h'', ReadError EIO]
   \<and> res_calls (handler www failing_disk_fs ''/a.txt'') =
       [ResWriteHead 200
          [(''Content-Length'', HNum 2),
           (''Content-Type'', HStr ''text/plain; charset=utf-8'')],
        ResWrite ''h'',
        ResWriteHead 500 [(''Content-Type'', HStr ''text/plain; charset=utf-8'')],
        ResEnd ''Error 500. Cannot read file.'']
   \<and> map fst (writeHeads (fst (handler www failing_disk_fs ''/a.txt''))) = [200, 500]"
  by code_simp

text \<open>
  C9 (a defect of the code). The descriptor that \<^verbatim>\<open>fs.open\<close> hands to the request
  listener is kept in \<^verbatim>\<open>fileDescriptor\<close>, passed to \<^verbatim>\<open>fs.fstat\<close> and never closed: the
  script has no call of \<^verbatim>\<open>fs.close\<close>, and \<^verbatim>\<open>fs.createReadStream\<close> is given the path, so
  \<^verbatim>\<open>autoClose\<close> is about another descriptor. After the complete response for \<^verbatim>\<open>/a.txt\<close>,
  and after the listing of \<^verbatim>\<open>/\<close>, the descriptor is still open.
\<close>

theorem descriptor_left_open:
  "fs_open (filesystem_of small_site) ''/srv/www/a.txt'' = Inr 4
   \<and> res_calls (handler www (filesystem_of small_site) ''/a.txt'') =
       [ResWriteHead 200
          [(''Content-Length'', HNum 2),
           (''Content-Type'', HStr ''text/plain; charset=utf-8'')],
        ResWrite ''hi'',
        ResEnd []]
   \<and> descriptors_open (filesystem_of small_site)
        (fst (handler www (filesystem_of small_site) ''/a.txt'')) [] = [4]
   \<and> descriptors_open (filesystem_of small_site)
        (fst (handler www (filesystem_of small_site) ''/'')) [] = [3]"
  by code_simp

text \<open>
  C10 (a defect of the code). The claim: every child that is neither a regular file nor a
  directory (socket, device, FIFO, dangling symbolic link) is left out of both lists and
  does not change the status. For sockets, devices and FIFOs the loop does that. For a
  symbolic link whose target is gone \<^verbatim>\<open>fs.statSync\<close>, which follows links, throws
  \<^verbatim>\<open>ENOENT\<close>, and no \<^verbatim>\<open>try\<close> surrounds the call: the exception leaves the \<^verbatim>\<open>readdir\<close>
  callback and \<^verbatim>\<open>res\<close> is never written to, where the failures of \<^verbatim>\<open>readdir\<close>,
  \<^verbatim>\<open>open\<close> and \<^verbatim>\<open>fstat\<close> are answered with status 500. The root of \<open>dangling_site\<close>
  is that of \<open>small_site\<close> with such a link \<^verbatim>\<open>latest\<close>: the link is not left out of the
  listing, there is no listing and no status, in any revision, while the same root
  without the link is listed with status 200.
\<close>

theorem dangling_link_aborts_listing:
  "fs_readdir (filesystem_of dangling_site) ''/srv/www'' = Inr [''a.txt'', ''latest'', ''sub'']
   \<and> fs_statSync (filesystem_of dangling_site) ''/srv/www/latest'' = Inl ENOENT
   \<and> handler www (filesystem_of dangling_site) ''/'' =
       ([FsExists ''/srv/www'', FsOpen ''/srv/www'', FsFstat 3, FsReaddir ''/srv/www'',
         FsStatSync ''/srv/www/a.txt'', FsStatSync ''/srv/www/latest''],
        Some (FsError ENOENT))
   \<and> response_status (handler www (filesystem_of dangling_site) ''/'') = None
   \<and> response_status (handler_0_2 www (filesystem_of dangling_site) ''/'') = None
   \<and> response_status (handler www (filesystem_of small_site) ''/'') = Some 200"
  by code_simp

end
